theory Spec2Isabelle
  imports Complex_Main
begin

section \<open>Data model\<close>

text \<open>
  The script \<^verbatim>\<open>src/data/make_dataset.py\<close> works on pandas tables. A cell of a table is
  a missing value (NaN/None), an integer, a float (idealised as a real number), a string
  or a timestamp. A table is column-major, as in pandas: row labels (the index) and named
  columns in order.
\<close>

datatype cell = Null | IntV int | FloatV real | StrV string | DateV int

record dataframe =
  df_index :: "nat list"
  df_columns :: "(string \<times> cell list) list"

definition column_names :: "dataframe \<Rightarrow> string list" where
  "column_names d = map fst (df_columns d)"

definition n_rows :: "dataframe \<Rightarrow> nat" where
  "n_rows d = length (df_index d)"

definition row_at :: "dataframe \<Rightarrow> nat \<Rightarrow> cell list" where
  "row_at d i = map (\<lambda>nc. snd nc ! i) (df_columns d)"

definition rows_of :: "dataframe \<Rightarrow> cell list list" where
  "rows_of d = map (row_at d) [0..<n_rows d]"


text \<open>A Python exception object of a class deriving from \<^verbatim>\<open>Exception\<close>: its class name
  and its message. \<^verbatim>\<open>FileNotFoundError\<close> and \<^verbatim>\<open>pandas.errors.EmptyDataError\<close> have
  no subclasses, so an \<^verbatim>\<open>except\<close> clause for them matches by class name.\<close>

datatype exn = Exn (exn_class: string) (exn_msg: string)

datatype dtype = Int64 | Float64 | Object | Datetime64

text \<open>The six regressors of the script, each with the \<^verbatim>\<open>random_state\<close> its
  constructor call passes (\<open>None\<close>: the call passes none). \<^verbatim>\<open>LinearRegression\<close> and
  \<^verbatim>\<open>KNeighborsRegressor\<close> have no such parameter.\<close>

datatype estimator =
    LinearRegression
  | RandomForestRegressor "nat option"
  | DecisionTreeRegressor "nat option"
  | GradientBoostingRegressor "nat option"
  | KNeighborsRegressor
  | XGBRegressor "nat option"

text \<open>A record of the fitting calls the script makes, in order: a plain
  \<^verbatim>\<open>model.fit\<close>, or a \<^verbatim>\<open>GridSearchCV(...).fit\<close> with its estimator, parameter grid,
  number of folds and scoring.\<close>

datatype call =
    FitCall estimator
  | GridSearchCall estimator "(string \<times> nat list) list" nat string

text \<open>What the script holds in a variable: \<^verbatim>\<open>None\<close> or a reference to a table object.\<close>

datatype pyval = PyNone | FrameRef nat

text \<open>One \<^verbatim>\<open>print\<close> call (or one report a pandas method writes to the console).
  An f-string is kept as its pieces: literal text, an integer, a float as \<^verbatim>\<open>str\<close> prints
  it, a float under the format \<^verbatim>\<open>:.3f\<close> (a missing one prints as \<^verbatim>\<open>nan\<close>).\<close>

datatype piece =
    S string
  | N nat
  | F real
  | F3 real
  | F3opt "real option"
  | Names "string list"
  | Params "(string \<times> nat) list"
  | Shape "nat list"

datatype pr =
    Text string
  | Fmt "piece list"
  | FrameRepr dataframe
  | CountsRepr "(string \<times> nat) list"
  | InfoRepr dataframe
  | ColumnsRepr "string list"
  | ScoresRepr "(string \<times> real) list"
  | DtypesRepr "(string \<times> dtype) list"

text \<open>The interpreter's state: the table objects by address, the next free address, the
  console, the number of \<^verbatim>\<open>time.time()\<close> readings taken and the fitting calls made.\<close>

record world =
  heap :: "nat \<Rightarrow> dataframe"
  next_ref :: nat
  stdout :: "pr list"
  time_calls :: nat
  calls :: "call list"

text \<open>What differs between two runs on the same files: the state of numpy's global random
  generator (seeded from the operating system when the process starts) and the readings of
  the clock.\<close>

record run_env =
  entropy :: nat
  clock :: "nat \<Rightarrow> real"

definition py_print :: "pr \<Rightarrow> world \<Rightarrow> world" where
  "py_print p w = w\<lparr>stdout := stdout w @ [p]\<rparr>"

definition new_frame :: "dataframe \<Rightarrow> world \<Rightarrow> nat \<times> world" where
  "new_frame d w =
     (next_ref w, w\<lparr>heap := (heap w)(next_ref w := d), next_ref := Suc (next_ref w)\<rparr>)"

definition quoted :: "string \<Rightarrow> string" where
  "quoted s = CHR 0x27 # s @ [CHR 0x27]"

section \<open>The two helper functions\<close>

text \<open>\<^verbatim>\<open>DataFrame.head(n)\<close>: the first \<open>n\<close> rows, as a new table.\<close>

definition head :: "nat \<Rightarrow> dataframe \<Rightarrow> dataframe" where
  "head n d =
     \<lparr>df_index = take n (df_index d),
      df_columns = map (\<lambda>nc. (fst nc, take n (snd nc))) (df_columns d)\<rparr>"

text \<open>
  \<^verbatim>\<open>load_dataset(file_path)\<close>, lines 23-41. The argument \<open>read_csv\<close> stands for
  \<^verbatim>\<open>pd.read_csv\<close> on the file system of the run: it returns the parsed table or raises.
  The three \<^verbatim>\<open>except\<close> clauses are tried in the source's order.
\<close>

definition load_dataset ::
  "(string \<Rightarrow> exn + dataframe) \<Rightarrow> string \<Rightarrow> world \<Rightarrow> (exn + pyval) \<times> world" where
  "load_dataset read_csv file_path w =
     (case read_csv file_path of
        Inr d \<Rightarrow>
          (let (r, w1) = new_frame d w;
               w2 = py_print (FrameRepr (head 5 d)) w1
           in (Inr (FrameRef r), w2))
      | Inl e \<Rightarrow>
          if exn_class e = ''FileNotFoundError'' then
            (Inr PyNone, py_print (Text ''The file was not found. Please check the file path.'') w)
          else if exn_class e = ''EmptyDataError'' then
            (Inr PyNone, py_print (Text ''The file is empty. Please provide a valid dataset.'') w)
          else
            (Inr PyNone, py_print (Fmt [S ''An error occurred: '', S (exn_msg e)]) w))"

text \<open>\<^verbatim>\<open>DataFrame.duplicated()\<close>: a row is marked when an equal row stands before it
  (missing values compare equal to each other there).\<close>

definition duplicated :: "dataframe \<Rightarrow> bool list" where
  "duplicated d =
     map (\<lambda>i. row_at d i \<in> set (map (row_at d) [0..<i])) [0..<n_rows d]"

definition isnull_sum :: "dataframe \<Rightarrow> (string \<times> nat) list" where
  "isnull_sum d = map (\<lambda>nc. (fst nc, length (filter (\<lambda>c. c = Null) (snd nc)))) (df_columns d)"

text \<open>\<^verbatim>\<open>check_data_quality(data_set)\<close>, lines 44-61. It has no \<^verbatim>\<open>return\<close> statement, so
  it returns \<^verbatim>\<open>None\<close> on both branches.\<close>

definition check_data_quality :: "pyval \<Rightarrow> world \<Rightarrow> (exn + pyval) \<times> world" where
  "check_data_quality data_set w =
     (case data_set of
        FrameRef r \<Rightarrow>
          (let duplicates = length (filter (\<lambda>b. b) (duplicated (heap w r)));
               w1 = py_print (Fmt [S ''Number of duplicate rows: '', N duplicates]) w;
               null_values = isnull_sum (heap w r);
               w2 = py_print (Text ''Null values in each column:'') w1;
               w3 = py_print (CountsRepr null_values) w2
           in (Inr PyNone, w3))
      | PyNone \<Rightarrow>
          (Inr PyNone,
           py_print (Text ''Data set is None, cannot perform data quality checks.'') w))"

section \<open>Sequencing statements that print, mutate and raise\<close>

text \<open>A statement of the script maps the interpreter's state to a result (\<open>Inl\<close>: the
  exception it raised) and the state it leaves. \<open>py_bind\<close> runs the next statement
  only when the one before returned; an exception passes through, as in a script with no
  \<^verbatim>\<open>try\<close> around its top level.\<close>

type_synonym 'a py = "world \<Rightarrow> (exn + 'a) \<times> world"

definition py_return :: "'a \<Rightarrow> 'a py" where
  "py_return x w = (Inr x, w)"

definition py_raise :: "exn \<Rightarrow> 'a py" where
  "py_raise e w = (Inl e, w)"

definition py_bind :: "'a py \<Rightarrow> ('a \<Rightarrow> 'b py) \<Rightarrow> 'b py" where
  "py_bind m f w = (case m w of (Inl e, w1) \<Rightarrow> (Inl e, w1) | (Inr x, w1) \<Rightarrow> f x w1)"

definition py_call :: "exn + 'a \<Rightarrow> 'a py" where
  "py_call r w = (r, w)"

definition py_say :: "pr \<Rightarrow> unit py" where
  "py_say p w = (Inr (), py_print p w)"

definition py_report :: "pr list \<times> exn option \<Rightarrow> unit py" where
  "py_report r w =
     (case snd r of None \<Rightarrow> Inr () | Some e \<Rightarrow> Inl e, w\<lparr>stdout := stdout w @ fst r\<rparr>)"

text \<open>Calling a method on the value of a variable: on \<^verbatim>\<open>None\<close> the attribute lookup
  raises \<^verbatim>\<open>AttributeError\<close>.\<close>

definition py_method :: "pyval \<Rightarrow> string \<Rightarrow> nat py" where
  "py_method v attr =
     (case v of
        PyNone \<Rightarrow>
          py_raise (Exn ''AttributeError''
            (quoted ''NoneType'' @ '' object has no attribute '' @ quoted attr))
      | FrameRef r \<Rightarrow> py_return r)"

definition py_read :: "nat \<Rightarrow> dataframe py" where
  "py_read r w = (Inr (heap w r), w)"

definition py_new :: "dataframe \<Rightarrow> nat py" where
  "py_new d w = (Inr (fst (new_frame d w)), snd (new_frame d w))"

section \<open>Table operations of pandas\<close>

definition key_error :: "string \<Rightarrow> exn" where
  "key_error k = Exn ''KeyError'' (quoted k)"

text \<open>\<^verbatim>\<open>df[name]\<close>: the column, or \<^verbatim>\<open>KeyError\<close>.\<close>

definition get_column :: "string \<Rightarrow> dataframe \<Rightarrow> exn + cell list" where
  "get_column c d = (case map_of (df_columns d) c of None \<Rightarrow> Inl (key_error c) | Some col \<Rightarrow> Inr col)"

text \<open>\<^verbatim>\<open>df[name] = values\<close>: replaces the column where it stands, or appends a new one;
  \<^verbatim>\<open>ValueError\<close> when the length differs from the number of rows.\<close>

definition set_column :: "string \<Rightarrow> cell list \<Rightarrow> dataframe \<Rightarrow> exn + dataframe" where
  "set_column c col d =
     (if length col \<noteq> n_rows d then
        Inl (Exn ''ValueError'' ''Length of values does not match length of index'')
      else if c \<in> set (column_names d) then
        Inr (d\<lparr>df_columns := map (\<lambda>nc. if fst nc = c then (c, col) else nc) (df_columns d)\<rparr>)
      else Inr (d\<lparr>df_columns := df_columns d @ [(c, col)]\<rparr>))"

text \<open>\<^verbatim>\<open>df[[names]]\<close>: a new table with, for each requested name in order, the columns
  of that name; \<^verbatim>\<open>KeyError\<close> when a name is missing. The rows and their labels stay.\<close>

definition get_columns :: "string list \<Rightarrow> dataframe \<Rightarrow> exn + dataframe" where
  "get_columns cs d =
     (case filter (\<lambda>c. c \<notin> set (column_names d)) cs of
        [] \<Rightarrow>
          Inr \<lparr>df_index = df_index d,
               df_columns = concat (map (\<lambda>c. filter (\<lambda>nc. fst nc = c) (df_columns d)) cs)\<rparr>
      | missing # _ \<Rightarrow> Inl (key_error missing))"

text \<open>\<^verbatim>\<open>df.drop(name, axis=1)\<close>: a new table without the column.\<close>

definition drop_column :: "string \<Rightarrow> dataframe \<Rightarrow> exn + dataframe" where
  "drop_column c d =
     (if c \<in> set (column_names d) then
        Inr (d\<lparr>df_columns := filter (\<lambda>nc. fst nc \<noteq> c) (df_columns d)\<rparr>)
      else Inl (key_error c))"

text \<open>\<^verbatim>\<open>df[mask]\<close> with a boolean mask: a new table of the rows marked true, under their
  old labels.\<close>

definition keep :: "bool list \<Rightarrow> 'a list \<Rightarrow> 'a list" where
  "keep marks xs = map snd (filter fst (zip marks xs))"

definition filter_rows :: "bool list \<Rightarrow> dataframe \<Rightarrow> dataframe" where
  "filter_rows marks d =
     \<lparr>df_index = keep marks (df_index d),
      df_columns = map (\<lambda>nc. (fst nc, keep marks (snd nc))) (df_columns d)\<rparr>"

text \<open>In-place statements on a table object.\<close>

definition py_getitem :: "nat \<Rightarrow> string \<Rightarrow> cell list py" where
  "py_getitem r c w = (get_column c (heap w r), w)"

definition py_setitem :: "nat \<Rightarrow> string \<Rightarrow> cell list \<Rightarrow> unit py" where
  "py_setitem r c col w =
     (case set_column c col (heap w r) of
        Inl e \<Rightarrow> (Inl e, w)
      | Inr d \<Rightarrow> (Inr (), w\<lparr>heap := (heap w)(r := d)\<rparr>))"

definition dtype_of :: "cell list \<Rightarrow> dtype" where
  "dtype_of col =
     (if col = [] then Object
      else if list_all (\<lambda>c. case c of IntV _ \<Rightarrow> True | _ \<Rightarrow> False) col then Int64
      else if list_all (\<lambda>c. case c of IntV _ \<Rightarrow> True | FloatV _ \<Rightarrow> True | Null \<Rightarrow> True
                              | _ \<Rightarrow> False) col then Float64
      else if list_all (\<lambda>c. case c of DateV _ \<Rightarrow> True | Null \<Rightarrow> True | _ \<Rightarrow> False) col
        then Datetime64
      else Object)"

text \<open>\<^verbatim>\<open>Series.factorize()\<close>: each value's code is the rank of its first appearance; a
  missing value gets \<open>-1\<close>.\<close>

fun index_of :: "'a \<Rightarrow> 'a list \<Rightarrow> nat" where
  "index_of x [] = 0"
| "index_of x (y # ys) = (if x = y then 0 else Suc (index_of x ys))"

definition uniques :: "cell list \<Rightarrow> cell list" where
  "uniques col = rev (remdups (rev (filter (\<lambda>c. c \<noteq> Null) col)))"

definition factorize :: "cell list \<Rightarrow> cell list" where
  "factorize col =
     map (\<lambda>c. if c = Null then IntV (- 1) else IntV (int (index_of c (uniques col)))) col"

section \<open>Numerical routines of pandas, scipy and scikit-learn\<close>

text \<open>Floats are idealised as real numbers; a float NaN is \<open>None\<close>. A routine that rejects
  its input raises.\<close>

definition exn_bind :: "exn + 'a \<Rightarrow> ('a \<Rightarrow> exn + 'b) \<Rightarrow> exn + 'b" where
  "exn_bind r f = (case r of Inl e \<Rightarrow> Inl e | Inr x \<Rightarrow> f x)"

fun all_ok :: "(exn + 'a) list \<Rightarrow> exn + 'a list" where
  "all_ok [] = Inr []"
| "all_ok (r # rs) =
     (case r of Inl e \<Rightarrow> Inl e
      | Inr x \<Rightarrow> (case all_ok rs of Inl e \<Rightarrow> Inl e | Inr xs \<Rightarrow> Inr (x # xs)))"

definition is_numeric :: "cell \<Rightarrow> bool" where
  "is_numeric c = (case c of StrV _ \<Rightarrow> False | DateV _ \<Rightarrow> False | _ \<Rightarrow> True)"

definition as_float :: "cell \<Rightarrow> real option" where
  "as_float c = (case c of IntV i \<Rightarrow> Some (of_int i) | FloatV x \<Rightarrow> Some x | _ \<Rightarrow> None)"

text \<open>The values of a numeric column as floats; arithmetic on a column of strings or
  timestamps raises \<^verbatim>\<open>TypeError\<close>.\<close>

definition numeric_column :: "cell list \<Rightarrow> exn + real option list" where
  "numeric_column col =
     (if list_all is_numeric col then Inr (map as_float col)
      else Inl (Exn ''TypeError'' ''unsupported operand type(s)''))"

definition numeric_series :: "string \<Rightarrow> dataframe \<Rightarrow> exn + real option list" where
  "numeric_series var d = exn_bind (get_column var d) numeric_column"

definition present :: "real option list \<Rightarrow> real list" where
  "present xs = map the (filter (\<lambda>x. x \<noteq> None) xs)"

definition mean :: "real list \<Rightarrow> real" where
  "mean xs = sum_list xs / real (length xs)"

text \<open>\<^verbatim>\<open>Series.quantile(q)\<close>: linear interpolation between the two closest ranks of the
  sorted present values; NaN when there is none.\<close>

definition quantile :: "real \<Rightarrow> real option list \<Rightarrow> real option" where
  "quantile q xs =
     (let s = sort (present xs); n = length s in
      if n = 0 then None
      else
        (let h = q * real (n - 1); lo = nat \<lfloor>h\<rfloor>; hi = nat \<lceil>h\<rceil>
         in Some (s ! lo + (h - real lo) * (s ! hi - s ! lo))))"

text \<open>Lines 197-202: the rows of a variable outside \<open>[Q1 - 1.5 IQR, Q3 + 1.5 IQR]\<close>. A
  comparison with NaN is false.\<close>

definition iqr_outliers :: "real option list \<Rightarrow> bool list" where
  "iqr_outliers xs =
     (case (quantile 0.25 xs, quantile 0.75 xs) of
        (Some Q1, Some Q3) \<Rightarrow>
          (let IQR = Q3 - Q1;
               lower_bound = Q1 - 1.5 * IQR;
               upper_bound = Q3 + 1.5 * IQR
           in map (\<lambda>x. case x of None \<Rightarrow> False
                        | Some v \<Rightarrow> v < lower_bound \<or> v > upper_bound) xs)
      | _ \<Rightarrow> map (\<lambda>_. False) xs)"

text \<open>\<^verbatim>\<open>scipy.stats.zscore\<close> of one column (population standard deviation): a NaN in
  the column makes every score NaN, and so does a standard deviation of zero.\<close>

definition zscore :: "real option list \<Rightarrow> real option list" where
  "zscore xs =
     (if xs = [] \<or> None \<in> set xs then map (\<lambda>_. None) xs
      else
        (let vs = map the xs;
             mn = mean vs;
             sd = sqrt (mean (map (\<lambda>v. (v - mn)\<^sup>2) vs))
         in if sd = 0 then map (\<lambda>_. None) vs else map (\<lambda>v. Some ((v - mn) / sd)) vs))"

definition np_abs :: "real option \<Rightarrow> real option" where
  "np_abs z = map_option abs z"

definition gt :: "real option \<Rightarrow> real \<Rightarrow> bool" where
  "gt z c = (case z of None \<Rightarrow> False | Some v \<Rightarrow> v > c)"

definition lt :: "real option \<Rightarrow> real \<Rightarrow> bool" where
  "lt z c = (case z of None \<Rightarrow> False | Some v \<Rightarrow> v < c)"

text \<open>The regression metrics of scikit-learn. They reject targets of different lengths,
  empty targets and targets that are not finite numbers.\<close>

definition check_targets :: "cell list \<Rightarrow> real list \<Rightarrow> exn + real list" where
  "check_targets y_true y_pred =
     (if length y_true \<noteq> length y_pred then
        Inl (Exn ''ValueError'' ''Found input variables with inconsistent numbers of samples'')
      else if y_true = [] then
        Inl (Exn ''ValueError'' ''Found array with 0 sample(s)'')
      else if list_all (\<lambda>c. as_float c \<noteq> None) y_true then Inr (map (\<lambda>c. the (as_float c)) y_true)
      else Inl (Exn ''ValueError'' ''Input contains NaN or is not numeric''))"

definition mean_absolute_error :: "cell list \<Rightarrow> real list \<Rightarrow> exn + real" where
  "mean_absolute_error y_true y_pred =
     exn_bind (check_targets y_true y_pred)
       (\<lambda>y. Inr (mean (map (\<lambda>ab. \<bar>fst ab - snd ab\<bar>) (zip y y_pred))))"

definition mean_squared_error :: "cell list \<Rightarrow> real list \<Rightarrow> exn + real" where
  "mean_squared_error y_true y_pred =
     exn_bind (check_targets y_true y_pred)
       (\<lambda>y. Inr (mean (map (\<lambda>ab. (fst ab - snd ab)\<^sup>2) (zip y y_pred))))"

text \<open>\<^verbatim>\<open>r2_score\<close>: NaN (with a warning) under two samples; otherwise
  \<open>1 - SS_res / SS_tot\<close>, made finite when \<open>SS_tot = 0\<close>.\<close>

definition r2_score :: "cell list \<Rightarrow> real list \<Rightarrow> exn + real option" where
  "r2_score y_true y_pred =
     exn_bind (check_targets y_true y_pred)
       (\<lambda>y. if length y_pred < 2 then Inr None
            else
              (let numerator = sum_list (map (\<lambda>ab. (fst ab - snd ab)\<^sup>2) (zip y y_pred));
                   denominator = sum_list (map (\<lambda>a. (a - mean y)\<^sup>2) y)
               in if denominator \<noteq> 0 then Inr (Some (1 - numerator / denominator))
                  else if numerator \<noteq> 0 then Inr (Some 0)
                  else Inr (Some 1)))"

text \<open>\<^verbatim>\<open>Series.idxmin()\<close> and \<^verbatim>\<open>Series.idxmax()\<close> on a column with labels \<open>0..n-1\<close>: the
  first position of the smallest (largest) present value; they raise when there is none.\<close>

fun scan_best :: "(real \<Rightarrow> real \<Rightarrow> bool) \<Rightarrow> nat \<times> real \<Rightarrow> (nat \<times> real) list \<Rightarrow> nat \<times> real" where
  "scan_best better b [] = b"
| "scan_best better b (c # cs) = scan_best better (if better (snd c) (snd b) then c else b) cs"

definition labelled :: "real option list \<Rightarrow> (nat \<times> real) list" where
  "labelled xs =
     map (\<lambda>ix. (fst ix, the (snd ix))) (filter (\<lambda>ix. snd ix \<noteq> None) (zip [0..<length xs] xs))"

definition idxmin :: "real option list \<Rightarrow> exn + nat" where
  "idxmin xs =
     (case labelled xs of
        [] \<Rightarrow> Inl (Exn ''ValueError'' ''attempt to get argmin of an empty sequence'')
      | c # cs \<Rightarrow> Inr (fst (scan_best (\<lambda>v b. v < b) c cs)))"

definition idxmax :: "real option list \<Rightarrow> exn + nat" where
  "idxmax xs =
     (case labelled xs of
        [] \<Rightarrow> Inl (Exn ''ValueError'' ''attempt to get argmax of an empty sequence'')
      | c # cs \<Rightarrow> Inr (fst (scan_best (\<lambda>v b. v > b) c cs)))"

section \<open>The library calls the script leaves to scikit-learn and friends\<close>

text \<open>
  The estimators, encoders and statistics of the libraries are parameters of the model:
  a run of the script is relative to what they compute. A routine that draws random
  numbers receives the seed it draws from; \<open>check_random_state\<close> is scikit-learn's rule
  for it: an integer \<^verbatim>\<open>random_state\<close> seeds a private generator, \<^verbatim>\<open>None\<close> takes numpy's
  global generator. \<open>'m\<close> is the type of fitted models.
\<close>

definition check_random_state :: "nat option \<Rightarrow> nat \<Rightarrow> nat" where
  "check_random_state random_state global = (case random_state of Some seed \<Rightarrow> seed | None \<Rightarrow> global)"

text \<open>The seed an estimator draws from when fitted; \<open>None\<close> for the two estimators that
  draw no random numbers.\<close>

fun estimator_seed :: "estimator \<Rightarrow> nat \<Rightarrow> nat option" where
  "estimator_seed LinearRegression g = None"
| "estimator_seed KNeighborsRegressor g = None"
| "estimator_seed (RandomForestRegressor rs) g = Some (check_random_state rs g)"
| "estimator_seed (DecisionTreeRegressor rs) g = Some (check_random_state rs g)"
| "estimator_seed (GradientBoostingRegressor rs) g = Some (check_random_state rs g)"
| "estimator_seed (XGBRegressor rs) g = Some (check_random_state rs g)"

text \<open>\<^verbatim>\<open>MEstimateEncoder\<close> draws random numbers only when built with
  \<^verbatim>\<open>randomized=True\<close>.\<close>

definition encoder_seed :: "bool \<Rightarrow> nat option \<Rightarrow> nat \<Rightarrow> nat option" where
  "encoder_seed randomized random_state g =
     (if randomized then Some (check_random_state random_state g) else None)"

record 'm lib =
  read_csv :: "string \<Rightarrow> exn + dataframe"
  to_datetime :: "cell list \<Rightarrow> exn + cell list"
  mutual_info_regression :: "dataframe \<Rightarrow> cell list \<Rightarrow> bool list \<Rightarrow> nat \<Rightarrow> exn + real list"
  sort_values :: "(string \<times> real) list \<Rightarrow> (string \<times> real) list"
  eda_report :: "dataframe \<Rightarrow> pr list \<times> exn option"
  vif_report :: "dataframe \<Rightarrow> pr list \<times> exn option"
  skew_report :: "dataframe \<Rightarrow> pr list \<times> exn option"
  m_estimate_encoder ::
    "string list \<Rightarrow> real \<Rightarrow> nat option \<Rightarrow> dataframe \<Rightarrow> cell list \<Rightarrow> exn + dataframe"
  standard_scaler :: "dataframe \<Rightarrow> exn + real list list"
  train_test_split ::
    "dataframe \<Rightarrow> cell list \<Rightarrow> real \<Rightarrow> nat \<Rightarrow>
       exn + (dataframe \<times> dataframe \<times> cell list \<times> cell list)"
  fit :: "estimator \<Rightarrow> nat option \<Rightarrow> dataframe \<Rightarrow> cell list \<Rightarrow> exn + 'm"
  grid_search_cv ::
    "estimator \<Rightarrow> nat option \<Rightarrow> (string \<times> nat list) list \<Rightarrow> nat \<Rightarrow> string \<Rightarrow>
       dataframe \<Rightarrow> cell list \<Rightarrow> exn + ('m \<times> (string \<times> nat) list \<times> real)"
  predict :: "'m \<Rightarrow> dataframe \<Rightarrow> exn + real list"

section \<open>The script, top to bottom\<close>

text \<open>
  Statements that only draw a plot are left out: they neither print nor bind a name that
  is read later. The three blocks that only compute and print statistics (Pearson and
  ANOVA, lines 118-154; VIF, lines 167-185; skewness, lines 210-216) are the library
  parameters \<open>eda_report\<close>, \<open>vif_report\<close> and \<open>skew_report\<close>: what they print, and the
  exception that stops them, if any.
\<close>

definition file_path :: string where
  "file_path = ''../../data/raw/data.csv''"

text \<open>Lines 82-89. \<^verbatim>\<open>data_set.info()\<close> is the first method call on the loaded value;
  \<^verbatim>\<open>describe()\<close> computes a summary that the script drops.\<close>

definition inspect_dataset :: "'m lib \<Rightarrow> nat py" where
  "inspect_dataset L =
     py_bind (load_dataset (read_csv L) file_path) (\<lambda>data_set.
     py_bind (check_data_quality data_set) (\<lambda>_.
     py_bind (py_method data_set ''info'') (\<lambda>r.
     py_bind (py_read r) (\<lambda>d.
     py_bind (py_say (InfoRepr d)) (\<lambda>_.
     py_bind (py_say (Fmt [S ''Dataset columns: '', Names (column_names d)])) (\<lambda>_.
     py_return r))))))"

text \<open>Lines 94-96: the \<^verbatim>\<open>date\<close> column of the loaded table is replaced in place.\<close>

definition dtypes :: "dataframe \<Rightarrow> (string \<times> dtype) list" where
  "dtypes d = map (\<lambda>nc. (fst nc, dtype_of (snd nc))) (df_columns d)"

definition preprocess_date :: "'m lib \<Rightarrow> nat \<Rightarrow> unit py" where
  "preprocess_date L r =
     py_bind (py_getitem r ''date'') (\<lambda>col.
     py_bind (py_call (to_datetime L col)) (\<lambda>dates.
     py_bind (py_setitem r ''date'' dates) (\<lambda>_.
     py_bind (py_read r) (\<lambda>d.
     py_say (DtypesRepr (dtypes d))))))"

text \<open>Lines 103-110. \<^verbatim>\<open>data_set.copy()\<close> makes a new table object with the same content;
  the loop factorizes five columns of that object in place.\<close>

fun factorize_columns :: "nat \<Rightarrow> string list \<Rightarrow> unit py" where
  "factorize_columns mi [] = py_return ()"
| "factorize_columns mi (column # columns) =
     py_bind (py_getitem mi column) (\<lambda>col.
     py_bind (py_setitem mi column (factorize col)) (\<lambda>_.
     factorize_columns mi columns))"

definition mutual_information :: "'m lib \<Rightarrow> run_env \<Rightarrow> nat \<Rightarrow> real list py" where
  "mutual_information L E data_set =
     py_bind (py_read data_set) (\<lambda>d.
     py_bind (py_new d) (\<lambda>mi_data_set.
     py_bind (factorize_columns mi_data_set
                [''date'', ''street'', ''city'', ''statezip'', ''country'']) (\<lambda>_.
     py_bind (py_read mi_data_set) (\<lambda>m.
     py_bind (py_call (drop_column ''price'' m)) (\<lambda>X.
     py_bind (py_call (get_column ''price'' m)) (\<lambda>y.
     py_bind (py_call (mutual_info_regression L X y
                (map (\<lambda>nc. dtype_of (snd nc) = Int64) (df_columns X))
                (check_random_state (Some 0) (entropy E)))) (\<lambda>mi_scores.
     py_bind (py_say (ScoresRepr (sort_values L (zip (column_names X) mi_scores)))) (\<lambda>_.
     py_return mi_scores))))))))"

definition explore :: "'m lib \<Rightarrow> nat \<Rightarrow> unit py" where
  "explore L data_set = py_bind (py_read data_set) (\<lambda>d. py_report (eda_report L d))"

text \<open>Lines 162-165: \<^verbatim>\<open>data_set\<close> is rebound to a new table of the selected columns.
  \<^verbatim>\<open>print(data_set.info())\<close> prints the summary and then the \<^verbatim>\<open>None\<close> that
  \<^verbatim>\<open>info()\<close> returns.\<close>

definition selected_features :: "string list" where
  "selected_features =
     [''bedrooms'', ''bathrooms'', ''sqft_living'', ''sqft_lot'', ''sqft_above'', ''street'',
      ''city'', ''statezip'', ''yr_built'', ''price'']"

definition select_features :: "nat \<Rightarrow> nat py" where
  "select_features data_set =
     py_bind (py_read data_set) (\<lambda>d.
     py_bind (py_call (get_columns selected_features d)) (\<lambda>selected.
     py_bind (py_new selected) (\<lambda>r.
     py_bind (py_say (InfoRepr selected)) (\<lambda>_.
     py_bind (py_say (Text ''None'')) (\<lambda>_.
     py_return r)))))"

text \<open>Lines 189-208: the two detection loops only count and print.\<close>

definition continuous_discrete_vars :: "string list" where
  "continuous_discrete_vars =
     [''bedrooms'', ''bathrooms'', ''sqft_living'', ''sqft_lot'', ''sqft_above'', ''yr_built'']"

definition count_true :: "bool list \<Rightarrow> nat" where
  "count_true bs = length (filter (\<lambda>b. b) bs)"

fun iqr_loop :: "string list \<Rightarrow> dataframe \<Rightarrow> unit py" where
  "iqr_loop [] data_set = py_return ()"
| "iqr_loop (var # vars) data_set =
     py_bind (py_call (numeric_series var data_set)) (\<lambda>xs.
     py_bind (py_say (Fmt [S ''Number of outliers in '', S var, S '' using IQR: '',
                           N (count_true (iqr_outliers xs))])) (\<lambda>_.
     iqr_loop vars data_set))"

fun zscore_loop :: "string list \<Rightarrow> dataframe \<Rightarrow> unit py" where
  "zscore_loop [] data_set = py_return ()"
| "zscore_loop (var # vars) data_set =
     py_bind (py_call (numeric_series var data_set)) (\<lambda>xs.
     py_bind (py_say (Fmt [S ''Number of outliers in '', S var, S '' using Z-score: '',
                           N (count_true (map (\<lambda>z. gt (np_abs z) 3) (zscore xs)))])) (\<lambda>_.
     zscore_loop vars data_set))"

text \<open>Lines 237-246: the only statement that removes rows. A row is kept when the
  absolute Z-score of each of the five variables is below 3.\<close>

definition variables_to_check :: "string list" where
  "variables_to_check = [''bedrooms'', ''bathrooms'', ''sqft_living'', ''sqft_lot'', ''sqft_above'']"

definition zscore_frame :: "dataframe \<Rightarrow> exn + real option list list" where
  "zscore_frame d =
     exn_bind (all_ok (map (\<lambda>nc. numeric_column (snd nc)) (df_columns d)))
       (\<lambda>cols. Inr (map zscore cols))"

definition filtered_entries :: "nat \<Rightarrow> real option list list \<Rightarrow> bool list" where
  "filtered_entries n abs_z_scores =
     map (\<lambda>i. list_all (\<lambda>col. lt (col ! i) 3) abs_z_scores) [0..<n]"

definition shape :: "dataframe \<Rightarrow> nat list" where
  "shape d = [n_rows d, length (df_columns d)]"

definition remove_outliers :: "dataframe \<Rightarrow> dataframe py" where
  "remove_outliers data_set =
     py_bind (py_call (get_columns variables_to_check data_set)) (\<lambda>checked.
     py_bind (py_call (zscore_frame checked)) (\<lambda>z_scores.
     (let abs_z_scores = map (map np_abs) z_scores;
          dataset_cleaned = filter_rows (filtered_entries (n_rows data_set) abs_z_scores) data_set
      in py_bind (py_say (Fmt [S ''Original dataset shape: '', Shape (shape data_set)])) (\<lambda>_.
         py_bind (py_say (Fmt [S ''Cleaned dataset shape: '', Shape (shape dataset_cleaned)])) (\<lambda>_.
         py_return dataset_cleaned)))))"

text \<open>Lines 251-269: target encoding of the three categorical columns, then scaling. The
  assignment of the \<^verbatim>\<open>price\<close> column aligns the values on the row labels.\<close>

definition align :: "nat list \<Rightarrow> nat list \<Rightarrow> cell list \<Rightarrow> cell list" where
  "align target labels vals =
     map (\<lambda>l. case map_of (zip labels vals) l of None \<Rightarrow> Null | Some v \<Rightarrow> v) target"

text \<open>\<^verbatim>\<open>pd.DataFrame(array, columns=names)\<close>: fresh row labels \<open>0..n-1\<close>.\<close>

definition frame_of_matrix :: "real list list \<Rightarrow> string list \<Rightarrow> exn + dataframe" where
  "frame_of_matrix M names =
     (if list_all (\<lambda>row. length row = length names) M then
        Inr \<lparr>df_index = [0..<length M],
             df_columns =
               map (\<lambda>jn. (snd jn, map (\<lambda>row. FloatV (row ! fst jn)) M))
                 (zip [0..<length names] names)\<rparr>
      else Inl (Exn ''ValueError'' ''Shape of passed values does not match the columns''))"

definition encode_and_scale :: "'m lib \<Rightarrow> run_env \<Rightarrow> dataframe \<Rightarrow> (dataframe \<times> cell list) py" where
  "encode_and_scale L E dataset_cleaned =
     py_bind (py_call (drop_column ''price'' dataset_cleaned)) (\<lambda>features.
     py_bind (py_call (get_column ''price'' dataset_cleaned)) (\<lambda>price.
     py_bind (py_call (m_estimate_encoder L [''city'', ''street'', ''statezip''] 0.5
                (encoder_seed False None (entropy E)) features price)) (\<lambda>encoded.
     py_bind (py_call (set_column ''price''
                (align (df_index encoded) (df_index dataset_cleaned) price) encoded)) (\<lambda>dataset_encoded.
     py_bind (py_call (get_column ''price'' dataset_encoded)) (\<lambda>y.
     py_bind (py_call (drop_column ''price'' dataset_encoded)) (\<lambda>X.
     py_bind (py_say (Fmt [S ''Shape of the feature matrix (X): '', Shape (shape X)])) (\<lambda>_.
     py_bind (py_say (Fmt [S ''Shape of the target variable (y): '', Shape [length y]])) (\<lambda>_.
     py_bind (py_call (standard_scaler L X)) (\<lambda>scaled.
     py_bind (py_call (frame_of_matrix scaled (column_names X))) (\<lambda>X_normalized.
     py_bind (py_say (Fmt [S ''Shape of the normalized feature matrix (X): '',
                           Shape (shape X_normalized)])) (\<lambda>_.
     py_return (X_normalized, y))))))))))))"

text \<open>Lines 274-276.\<close>

definition split_data ::
  "'m lib \<Rightarrow> run_env \<Rightarrow> dataframe \<Rightarrow> cell list \<Rightarrow>
     (dataframe \<times> dataframe \<times> cell list \<times> cell list) py" where
  "split_data L E X_normalized y =
     py_bind (py_call (train_test_split L X_normalized y 0.2
                (check_random_state (Some 2) (entropy E)))) (\<lambda>parts.
     py_bind (py_say (Fmt [S ''Number of training samples: '', N (n_rows (fst parts))])) (\<lambda>_.
     py_bind (py_say (Fmt [S ''Number of test samples: '', N (n_rows (fst (snd parts)))])) (\<lambda>_.
     py_return parts)))"

text \<open>Lines 278-307. \<^verbatim>\<open>models\<close> is a dictionary literal: its items come in the order
  written. \<^verbatim>\<open>predictions[name] = ...\<close> replaces the entry of a key or appends a new one.\<close>

definition models :: "(string \<times> estimator) list" where
  "models =
     [(''Multiple Linear Regression'', LinearRegression),
      (''Random Forest'', RandomForestRegressor (Some 2)),
      (''Decision Tree Regression'', DecisionTreeRegressor (Some 2)),
      (''Boosted Decision Tree Regression'', GradientBoostingRegressor (Some 2)),
      (''K-nearest neighbors (KNN)'', KNeighborsRegressor),
      (''XGBoost'', XGBRegressor (Some 2))]"

fun dict_set :: "'k \<Rightarrow> 'v \<Rightarrow> ('k \<times> 'v) list \<Rightarrow> ('k \<times> 'v) list" where
  "dict_set k v [] = [(k, v)]"
| "dict_set k v (p # ps) = (if fst p = k then (k, v) # ps else p # dict_set k v ps)"

definition time_time :: "run_env \<Rightarrow> real py" where
  "time_time E w = (Inr (clock E (time_calls w)), w\<lparr>time_calls := Suc (time_calls w)\<rparr>)"

definition py_log :: "call \<Rightarrow> unit py" where
  "py_log c w = (Inr (), w\<lparr>calls := calls w @ [c]\<rparr>)"

text \<open>The body of the \<^verbatim>\<open>if\<close>/\<^verbatim>\<open>else\<close> of lines 293-303: the fitted model the
  iteration goes on with.\<close>

definition train ::
  "'m lib \<Rightarrow> run_env \<Rightarrow> string \<Rightarrow> estimator \<Rightarrow> dataframe \<Rightarrow> cell list \<Rightarrow> 'm py" where
  "train L E name model X_train y_train =
     (if name = ''K-nearest neighbors (KNN)'' then
        (let param_grid = [(''n_neighbors'', [1..<31])] in
         py_bind (py_log (GridSearchCall KNeighborsRegressor param_grid 10 ''r2'')) (\<lambda>_.
         py_bind (py_call (grid_search_cv L KNeighborsRegressor
                    (estimator_seed KNeighborsRegressor (entropy E))
                    param_grid 10 ''r2'' X_train y_train)) (\<lambda>found.
         py_bind (py_say (Fmt [S ''Best parameters for KNN: '', Params (fst (snd found))])) (\<lambda>_.
         py_bind (py_say (Fmt [S ''Best score for KNN: '', F3 (snd (snd found))])) (\<lambda>_.
         py_return (fst found))))))
      else
        py_bind (py_log (FitCall model)) (\<lambda>_.
        py_call (fit L model (estimator_seed model (entropy E)) X_train y_train)))"

fun training_loop ::
  "'m lib \<Rightarrow> run_env \<Rightarrow> (string \<times> estimator) list \<Rightarrow> dataframe \<Rightarrow> cell list \<Rightarrow> dataframe \<Rightarrow>
     (string \<times> real list) list \<Rightarrow> (string \<times> real list) list py" where
  "training_loop L E [] X_train y_train X_test predictions = py_return predictions"
| "training_loop L E (item # rest) X_train y_train X_test predictions =
     py_bind (py_say (Fmt [S ''Processing '', S (fst item), S ''...''])) (\<lambda>_.
     py_bind (time_time E) (\<lambda>start_time.
     py_bind (train L E (fst item) (snd item) X_train y_train) (\<lambda>fitted.
     py_bind (time_time E) (\<lambda>now.
     py_bind (py_say (Fmt [S (fst item), S '' training completed in '',
                           F3 (now - start_time), S '' seconds.''])) (\<lambda>_.
     py_bind (py_call (predict L fitted X_test)) (\<lambda>pred.
     training_loop L E rest X_train y_train X_test
       (dict_set (fst item) pred predictions)))))))"

text \<open>Lines 312-321: one row is appended per entry of \<^verbatim>\<open>predictions\<close>.\<close>

record metrics_row =
  Model :: string
  MAE :: real
  MSE :: real
  RMSE :: real
  R2_Score :: "real option"

fun evaluation_loop ::
  "(string \<times> real list) list \<Rightarrow> cell list \<Rightarrow> metrics_row list \<Rightarrow> exn + metrics_row list" where
  "evaluation_loop [] y_test metrics_df = Inr metrics_df"
| "evaluation_loop (item # rest) y_test metrics_df =
     exn_bind (mean_absolute_error y_test (snd item)) (\<lambda>mae.
     exn_bind (mean_squared_error y_test (snd item)) (\<lambda>mse.
     exn_bind (Inr (sqrt mse)) (\<lambda>rmse.
     exn_bind (r2_score y_test (snd item)) (\<lambda>r2.
     evaluation_loop rest y_test
       (metrics_df @
          [\<lparr>Model = fst item, MAE = mae, MSE = mse, RMSE = rmse, R2_Score = r2\<rparr>])))))"

text \<open>Lines 333-352. The column label of the fourth metric is \<^verbatim>\<open>R\<close>, a superscript two
  (two bytes in UTF-8) and \<^verbatim>\<open> Score\<close>.\<close>

definition r2_label :: string where
  "r2_label = ''R'' @ [CHR 0xC2, CHR 0xB2] @ '' Score''"

record selection =
  best_mse_model :: metrics_row
  best_r2_model :: metrics_row
  best_model_name :: "string option"

definition select_best :: "metrics_row list \<Rightarrow> selection py" where
  "select_best metrics_df =
     py_bind (py_call (idxmin (map (\<lambda>r. Some (MSE r)) metrics_df))) (\<lambda>i.
     py_bind (py_call (idxmax (map R2_Score metrics_df))) (\<lambda>j.
     py_bind (py_say (Fmt [S ''The best model based on MSE is '', S (Model (metrics_df ! i)),
                           S '' with an MSE of '', F3 (MSE (metrics_df ! i)), S ''.''])) (\<lambda>_.
     py_bind (py_say (Fmt [S ''The best model based on '', S r2_label, S '' is '',
                           S (Model (metrics_df ! j)), S '' with an '', S r2_label, S '' of '',
                           F3opt (R2_Score (metrics_df ! j)), S ''.''])) (\<lambda>_.
     if Model (metrics_df ! i) = Model (metrics_df ! j) then
       py_bind (py_say (Fmt [S (CHR 0x0A # ''Overall, the best model is ''),
                             S (Model (metrics_df ! i)),
                             S '' based on common criteria, with an '', S r2_label, S '' of '',
                             F3opt (R2_Score (metrics_df ! j)), S ''.''])) (\<lambda>_.
       py_return \<lparr>best_mse_model = metrics_df ! i, best_r2_model = metrics_df ! j,
                  best_model_name = Some (Model (metrics_df ! i))\<rparr>)
     else
       py_bind (py_say (Text (CHR 0x0A #
         ''Consideration is needed to choose the overall best model based on specific requirements.''))) (\<lambda>_.
       py_return \<lparr>best_mse_model = metrics_df ! i, best_r2_model = metrics_df ! j,
                  best_model_name = None\<rparr>)))))"

text \<open>Section 4 of the script, "Model Development" (lines 272-307): the split and the
  training loop.\<close>

definition model_development ::
  "'m lib \<Rightarrow> run_env \<Rightarrow> dataframe \<Rightarrow> cell list \<Rightarrow>
     ((dataframe \<times> dataframe \<times> cell list \<times> cell list) \<times> (string \<times> real list) list) py" where
  "model_development L E X_normalized y =
     py_bind (split_data L E X_normalized y) (\<lambda>split.
     py_bind (training_loop L E models
                (fst split) (fst (snd (snd split))) (fst (snd split)) []) (\<lambda>preds.
     py_return (split, preds)))"

text \<open>Section 5 of the script, "Model Evaluation, Comparison, and Selection"
  (lines 310-352): the metrics table and the choice.\<close>

definition model_evaluation ::
  "(string \<times> real list) list \<Rightarrow> cell list \<Rightarrow> (metrics_row list \<times> selection) py" where
  "model_evaluation preds y_test =
     py_bind (py_call (evaluation_loop preds y_test [])) (\<lambda>table.
     py_bind (select_best table) (\<lambda>chosen.
     py_return (table, chosen)))"

text \<open>The whole script. Its result collects what the run computed.\<close>

record results =
  mi_scores :: "real list"
  parts :: "dataframe \<times> dataframe \<times> cell list \<times> cell list"
  predictions :: "(string \<times> real list) list"
  metrics_df :: "metrics_row list"
  best :: selection

definition script :: "'m lib \<Rightarrow> run_env \<Rightarrow> results py" where
  "script L E =
     py_bind (inspect_dataset L) (\<lambda>loaded.
     py_bind (preprocess_date L loaded) (\<lambda>_.
     py_bind (mutual_information L E loaded) (\<lambda>scores.
     py_bind (explore L loaded) (\<lambda>_.
     py_bind (select_features loaded) (\<lambda>selected.
     py_bind (py_read selected) (\<lambda>data_set.
     py_bind (py_report (vif_report L data_set)) (\<lambda>_.
     py_bind (iqr_loop continuous_discrete_vars data_set) (\<lambda>_.
     py_bind (zscore_loop continuous_discrete_vars data_set) (\<lambda>_.
     py_bind (py_report (skew_report L data_set)) (\<lambda>_.
     py_bind (remove_outliers data_set) (\<lambda>dataset_cleaned.
     py_bind (encode_and_scale L E dataset_cleaned) (\<lambda>Xy.
     py_bind (model_development L E (fst Xy) (snd Xy)) (\<lambda>developed.
     py_bind (model_evaluation (snd developed) (snd (snd (snd (fst developed))))) (\<lambda>evaluated.
     py_return \<lparr>mi_scores = scores, parts = fst developed, predictions = snd developed,
                metrics_df = fst evaluated, best = snd evaluated\<rparr>))))))))))))))"

section \<open>Comparing two runs\<close>

text \<open>Two interpreter states hold the same objects when they differ at most in what was
  printed and in how often the clock was read. Two statements agree when, started in states
  with the same objects, they end alike (the same value or the same exception) in states
  with the same objects.\<close>

definition same_objects :: "world \<Rightarrow> world \<Rightarrow> bool" where
  "same_objects w1 w2 \<longleftrightarrow>
     heap w1 = heap w2 \<and> next_ref w1 = next_ref w2 \<and> calls w1 = calls w2"

definition agree :: "'a py \<Rightarrow> 'a py \<Rightarrow> bool" where
  "agree m1 m2 \<longleftrightarrow>
     (\<forall>w1 w2. same_objects w1 w2 \<longrightarrow>
        fst (m1 w1) = fst (m2 w2) \<and> same_objects (snd (m1 w1)) (snd (m2 w2)))"

section \<open>Example inputs\<close>

text \<open>Small concrete inputs on which the definitions above are evaluated: a table of three
  sales with the eighteen columns of the CSV file, a table of five sales with the ten
  selected columns, an interpreter state that holds the first at address 0, and stand-ins
  for the library routines.\<close>

definition raw_sales :: dataframe where
  "raw_sales =
     \<lparr>df_index = [0, 1, 2],
      df_columns =
        [(''date'', [StrV ''2014-05-02'', StrV ''2014-05-02'', StrV ''2014-05-03'']),
         (''price'', [FloatV 313000, FloatV 2384000, FloatV 342000]),
         (''bedrooms'', [FloatV 3, FloatV 5, FloatV 3]),
         (''bathrooms'', [FloatV 1.5, FloatV 2.5, FloatV 2]),
         (''sqft_living'', [IntV 1340, IntV 3650, IntV 1930]),
         (''sqft_lot'', [IntV 7912, IntV 9050, IntV 11947]),
         (''floors'', [FloatV 1.5, FloatV 2, FloatV 1]),
         (''waterfront'', [IntV 0, IntV 0, IntV 0]),
         (''view'', [IntV 0, IntV 4, IntV 0]),
         (''condition'', [IntV 3, IntV 5, IntV 4]),
         (''sqft_above'', [IntV 1340, IntV 3370, IntV 1930]),
         (''sqft_basement'', [IntV 0, IntV 280, IntV 0]),
         (''yr_built'', [IntV 1955, IntV 1921, IntV 1966]),
         (''yr_renovated'', [IntV 2005, IntV 0, IntV 0]),
         (''street'', [StrV ''18810 Densmore Ave N'', StrV ''709 W Blaine St'',
                       StrV ''26206 143rd Ave SE'']),
         (''city'', [StrV ''Shoreline'', StrV ''Seattle'', StrV ''Kent'']),
         (''statezip'', [StrV ''WA 98133'', StrV ''WA 98119'', StrV ''WA 98042'']),
         (''country'', [StrV ''USA'', StrV ''USA'', StrV ''USA''])]\<rparr>"

definition five_sales :: dataframe where
  "five_sales =
     \<lparr>df_index = [0, 1, 2, 3, 4],
      df_columns =
        [(''bedrooms'', [IntV 1, IntV 1, IntV 1, IntV 1, IntV 2]),
         (''bathrooms'', [IntV 1, IntV 1, IntV 1, IntV 1, IntV 2]),
         (''sqft_living'', [IntV 1, IntV 1, IntV 1, IntV 1, IntV 2]),
         (''sqft_lot'', [IntV 1, IntV 1, IntV 1, IntV 1, IntV 2]),
         (''sqft_above'', [IntV 1, IntV 1, IntV 1, IntV 1, IntV 2]),
         (''street'', [StrV ''a'', StrV ''b'', StrV ''c'', StrV ''d'', StrV ''e'']),
         (''city'', [StrV ''S'', StrV ''S'', StrV ''S'', StrV ''K'', StrV ''K'']),
         (''statezip'', [StrV ''W1'', StrV ''W1'', StrV ''W1'', StrV ''W2'', StrV ''W2'']),
         (''yr_built'', [IntV 1990, IntV 1991, IntV 1992, IntV 1993, IntV 1994]),
         (''price'', [FloatV 100, FloatV 110, FloatV 120, FloatV 130, FloatV 300])]\<rparr>"



definition empty_frame :: dataframe where
  "empty_frame = \<lparr>df_index = [], df_columns = []\<rparr>"

definition initial_world :: world where
  "initial_world =
     \<lparr>heap = (\<lambda>_. empty_frame), next_ref = 0, stdout = [], time_calls = 0, calls = []\<rparr>"

definition loaded_world :: world where
  "loaded_world =
     \<lparr>heap = (\<lambda>_. empty_frame)(0 := raw_sales), next_ref = 1, stdout = [], time_calls = 0,
      calls = []\<rparr>"

definition still_env :: run_env where
  "still_env = \<lparr>entropy = 0, clock = (\<lambda>k. real k)\<rparr>"

definition stub_lib :: "(string \<Rightarrow> exn + dataframe) \<Rightarrow> unit lib" where
  "stub_lib parse =
     \<lparr>read_csv = parse,
      to_datetime = (\<lambda>col. Inr col),
      mutual_info_regression = (\<lambda>X y discrete seed. Inr (map (\<lambda>_. 0) (df_columns X))),
      sort_values = (\<lambda>xs. xs),
      eda_report = (\<lambda>d. ([], None)),
      vif_report = (\<lambda>d. ([], None)),
      skew_report = (\<lambda>d. ([], None)),
      m_estimate_encoder = (\<lambda>cols m seed X y. Inr X),
      standard_scaler = (\<lambda>X. Inr (map (\<lambda>_. map (\<lambda>_. 0) (df_columns X)) (df_index X))),
      train_test_split = (\<lambda>X y test_size seed. Inr (X, X, y, y)),
      fit = (\<lambda>est seed X y. Inr ()),
      grid_search_cv = (\<lambda>est seed grid cv scoring X y. Inr ((), [(''n_neighbors'', 5)], 0)),
      predict = (\<lambda>m X. Inr (map (\<lambda>_. 0) (df_index X)))\<rparr>"

definition missing_file_lib :: "unit lib" where
  "missing_file_lib =
     stub_lib (\<lambda>_. Inl (Exn ''FileNotFoundError'' ''No such file or directory''))"

text \<open>Two predictions against two held-out targets, the metrics rows they give, and the
  better of the two rows.\<close>

definition two_predictions :: "(string \<times> real list) list" where
  "two_predictions = [(''A'', [3, 5]), (''B'', [1, 3])]"

definition two_targets :: "cell list" where
  "two_targets = [FloatV 1, FloatV 3]"

definition two_rows :: "metrics_row list" where
  "two_rows =
     [\<lparr>Model = ''A'', MAE = 2, MSE = 4, RMSE = 2, R2_Score = Some (- 3)\<rparr>,
      \<lparr>Model = ''B'', MAE = 0, MSE = 0, RMSE = 0, R2_Score = Some 1\<rparr>]"

definition row_B :: metrics_row where
  "row_B = \<lparr>Model = ''B'', MAE = 0, MSE = 0, RMSE = 0, R2_Score = Some 1\<rparr>"

section \<open>Properties of the helper functions\<close>

lemma count_earlier_equal:
  "length (filter (\<lambda>i. xs ! i \<in> set (take i xs)) [0..<length xs]) = length xs - card (set xs)"
proof (induction xs rule: rev_induct)
  case Nil
  then show ?case by simp
next
  case (snoc x xs)
  have same: "filter (\<lambda>i. (xs @ [x]) ! i \<in> set (take i (xs @ [x]))) [0..<length xs]
      = filter (\<lambda>i. xs ! i \<in> set (take i xs)) [0..<length xs]"
    by (rule filter_cong) (auto simp: nth_append)
  have le: "card (set xs) \<le> length xs"
    by (rule card_length)
  show ?case
  proof (cases "x \<in> set xs")
    case True
    then have "card (set (xs @ [x])) = card (set xs)"
      by (simp add: insert_absorb)
    with True same snoc.IH le show ?thesis by simp
  next
    case False
    then have "card (set (xs @ [x])) = Suc (card (set xs))"
      by simp
    with False same snoc.IH le show ?thesis by simp
  qed
qed

lemma length_filter_eq_count:
  "length (filter (\<lambda>c. c = y) xs) = count_list xs y"
  by (induction xs) auto

lemma duplicated_count:
  "length (filter (\<lambda>b. b) (duplicated d)) = n_rows d - card (set (rows_of d))"
proof -
  let ?rs = "rows_of d"
  have len: "length ?rs = n_rows d"
    by (simp add: rows_of_def)
  have "length (filter (\<lambda>b. b) (duplicated d))
      = length (filter (\<lambda>i. row_at d i \<in> set (map (row_at d) [0..<i])) [0..<n_rows d])"
    by (simp add: duplicated_def filter_map comp_def)
  also have "filter (\<lambda>i. row_at d i \<in> set (map (row_at d) [0..<i])) [0..<n_rows d]
      = filter (\<lambda>i. ?rs ! i \<in> set (take i ?rs)) [0..<length ?rs]"
    unfolding len by (rule filter_cong) (auto simp: rows_of_def take_map)
  finally show ?thesis
    using count_earlier_equal [of ?rs] len by simp
qed

text \<open>
  C1. For every path and every outcome of the CSV parser, \<^verbatim>\<open>load_dataset\<close> returns
  normally: on success a reference to the parsed table (after printing its first five
  rows); when the parser raises, \<^verbatim>\<open>None\<close> after printing exactly one diagnostic,
  chosen among three classes (file not found, empty file, anything else). No exception
  leaves the function.
\<close>

theorem load_dataset_outcomes:
  "(case parse path of
      Inr d \<Rightarrow>
        fst (load_dataset parse path w) = Inr (FrameRef (next_ref w)) \<and>
        heap (snd (load_dataset parse path w)) (next_ref w) = d \<and>
        stdout (snd (load_dataset parse path w)) = stdout w @ [FrameRepr (head 5 d)]
    | Inl e \<Rightarrow>
        fst (load_dataset parse path w) = Inr PyNone \<and>
        heap (snd (load_dataset parse path w)) = heap w \<and>
        stdout (snd (load_dataset parse path w)) = stdout w @
          [if exn_class e = ''FileNotFoundError''
             then Text ''The file was not found. Please check the file path.''
           else if exn_class e = ''EmptyDataError''
             then Text ''The file is empty. Please provide a valid dataset.''
           else Fmt [S ''An error occurred: '', S (exn_msg e)]])"
  by (simp add: load_dataset_def new_frame_def py_print_def split: sum.split)

text \<open>
  C8. \<^verbatim>\<open>check_data_quality\<close> returns \<^verbatim>\<open>None\<close> on every input, table or
  \<^verbatim>\<open>None\<close>, and never raises. For a table it prints the number of duplicate rows (the
  rows minus the distinct rows) and the count of missing values per column; for
  \<^verbatim>\<open>None\<close> it prints a message. No table object is modified.
\<close>

theorem check_data_quality_outcome:
  "fst (check_data_quality data_set w) = Inr PyNone \<and>
   heap (snd (check_data_quality data_set w)) = heap w \<and>
   stdout (snd (check_data_quality data_set w)) = stdout w @
     (case data_set of
        PyNone \<Rightarrow> [Text ''Data set is None, cannot perform data quality checks.'']
      | FrameRef r \<Rightarrow>
          [Fmt [S ''Number of duplicate rows: '',
                N (n_rows (heap w r) - card (set (rows_of (heap w r))))],
           Text ''Null values in each column:'',
           CountsRepr (map (\<lambda>nc. (fst nc, count_list (snd nc) Null)) (df_columns (heap w r)))])"
  by (simp add: check_data_quality_def py_print_def Let_def duplicated_count isnull_sum_def
      length_filter_eq_count split: pyval.split)

section \<open>Sequencing lemmas\<close>

lemma py_bind_Inr_elim:
  assumes "py_bind m f w = (Inr y, w')"
  obtains x w1 where "m w = (Inr x, w1)" and "f x w1 = (Inr y, w')"
  using assms by (auto simp: py_bind_def split: prod.splits sum.splits)

lemma py_bind_Inl: "m w = (Inl e, w1) \<Longrightarrow> py_bind m f w = (Inl e, w1)"
  by (simp add: py_bind_def)

lemma py_bind_heap:
  assumes "\<And>w. heap (snd (m w)) = heap w" and "\<And>x w. heap (snd (f x w)) = heap w"
  shows "heap (snd (py_bind m f w)) = heap w"
proof (cases "m w")
  case (Pair r w1)
  have w1: "heap w1 = heap w"
    using assms(1) [of w] Pair by simp
  show ?thesis
  proof (cases r)
    case (Inl e)
    with Pair w1 show ?thesis by (simp add: py_bind_def)
  next
    case (Inr x)
    with Pair w1 assms(2) [of x w1] show ?thesis by (simp add: py_bind_def)
  qed
qed

lemma py_read_heap: "heap (snd (py_read r w)) = heap w"
  by (simp add: py_read_def)

lemma py_call_heap: "heap (snd (py_call r w)) = heap w"
  by (simp add: py_call_def)

lemma py_say_heap: "heap (snd (py_say p w)) = heap w"
  by (simp add: py_say_def py_print_def)

lemma py_return_heap: "heap (snd (py_return x w)) = heap w"
  by (simp add: py_return_def)

section \<open>A failed load\<close>

lemma inspect_dataset_None:
  assumes "read_csv L file_path = Inl e"
  shows "inspect_dataset L w =
     (Inl (Exn ''AttributeError''
            (quoted ''NoneType'' @ '' object has no attribute '' @ quoted ''info'')),
      snd (check_data_quality PyNone (snd (load_dataset (read_csv L) file_path w))))"
  using assms
  by (simp add: inspect_dataset_def py_bind_def load_dataset_def check_data_quality_def
      py_method_def py_raise_def)

text \<open>
  C2. When loading fails, \<^verbatim>\<open>load_dataset\<close> returns \<^verbatim>\<open>None\<close>, the script does not test
  it: \<^verbatim>\<open>check_data_quality(None)\<close> prints its message and returns, and the first method
  call on the value, \<^verbatim>\<open>data_set.info()\<close>, raises \<^verbatim>\<open>AttributeError\<close>, which nothing
  catches: it is the outcome of the whole script.
\<close>

theorem failed_load_reaches_info:
  assumes "read_csv L file_path = Inl e"
  shows "fst (load_dataset (read_csv L) file_path w) = Inr PyNone \<and>
         fst (check_data_quality PyNone (snd (load_dataset (read_csv L) file_path w))) = Inr PyNone \<and>
         fst (script L E w) =
           Inl (Exn ''AttributeError''
                 (quoted ''NoneType'' @ '' object has no attribute '' @ quoted ''info'')) \<and>
         stdout (snd (script L E w)) =
           stdout (snd (load_dataset (read_csv L) file_path w)) @
             [Text ''Data set is None, cannot perform data quality checks.'']"
proof -
  have "script L E w =
     (Inl (Exn ''AttributeError''
            (quoted ''NoneType'' @ '' object has no attribute '' @ quoted ''info'')),
      snd (check_data_quality PyNone (snd (load_dataset (read_csv L) file_path w))))"
    unfolding script_def by (rule py_bind_Inl) (rule inspect_dataset_None [OF assms])
  then show ?thesis
    using assms by (simp add: load_dataset_def check_data_quality_def py_print_def)
qed

theorem failed_load_reaches_info_witness:
  "read_csv missing_file_lib file_path = Inl (Exn ''FileNotFoundError'' ''No such file or directory'') \<and>
   fst (script missing_file_lib still_env initial_world) =
     Inl (Exn ''AttributeError''
           (quoted ''NoneType'' @ '' object has no attribute '' @ quoted ''info'')) \<and>
   stdout (snd (script missing_file_lib still_env initial_world)) =
     [Text ''The file was not found. Please check the file path.'',
      Text ''Data set is None, cannot perform data quality checks.'']"
proof -
  have h: "read_csv missing_file_lib file_path =
      Inl (Exn ''FileNotFoundError'' ''No such file or directory'')"
    by (simp add: missing_file_lib_def stub_lib_def)
  show ?thesis
    using failed_load_reaches_info [OF h, of initial_world still_env] h
    by (simp add: load_dataset_def py_print_def initial_world_def)
qed

section \<open>Feature selection\<close>

lemma filter_name_distinct:
  "distinct (map fst cols) \<Longrightarrow> c \<in> set (map fst cols) \<Longrightarrow>
     filter (\<lambda>nc. fst nc = c) cols = [(c, the (map_of cols c))]"
proof (induction cols)
  case Nil
  then show ?case by simp
next
  case (Cons p cols)
  show ?case
  proof (cases "fst p = c")
    case True
    with Cons.prems have "c \<notin> fst ` set cols" by auto
    then have "filter (\<lambda>nc. fst nc = c) cols = []"
      by (auto simp: filter_empty_conv)
    with True show ?thesis by (cases p) auto
  next
    case False
    with Cons show ?thesis by (cases p) auto
  qed
qed

lemma concat_selected:
  assumes "distinct (map fst cols)" and "set cs \<subseteq> set (map fst cols)"
  shows "concat (map (\<lambda>c. filter (\<lambda>nc. fst nc = c) cols) cs) = map (\<lambda>c. (c, the (map_of cols c))) cs"
  using assms(2)
proof (induction cs)
  case Nil
  then show ?case by simp
next
  case (Cons c cs)
  then show ?case using filter_name_distinct [OF assms(1), of c] by simp
qed

lemma get_columns_Inr:
  assumes "get_columns cs d = Inr s"
  shows "set cs \<subseteq> set (column_names d)"
    and "s = \<lparr>df_index = df_index d,
              df_columns = concat (map (\<lambda>c. filter (\<lambda>nc. fst nc = c) (df_columns d)) cs)\<rparr>"
  using assms by (auto simp: get_columns_def filter_empty_conv split: list.splits)

lemma get_columns_names:
  assumes "distinct (column_names d)" and "get_columns cs d = Inr s"
  shows "column_names s = cs" and "df_index s = df_index d"
    and "df_columns s = map (\<lambda>c. (c, the (map_of (df_columns d) c))) cs"
proof -
  have sub: "set cs \<subseteq> set (map fst (df_columns d))"
    using get_columns_Inr(1) [OF assms(2)] by (simp add: column_names_def)
  have dist: "distinct (map fst (df_columns d))"
    using assms(1) by (simp add: column_names_def)
  show cols: "df_columns s = map (\<lambda>c. (c, the (map_of (df_columns d) c))) cs"
    using get_columns_Inr(2) [OF assms(2)] concat_selected [OF dist sub] by simp
  show "column_names s = cs"
    by (simp add: column_names_def cols comp_def)
  show "df_index s = df_index d"
    using get_columns_Inr(2) [OF assms(2)] by simp
qed

lemma get_columns_values:
  assumes "distinct (column_names d)" and "get_columns cs d = Inr s" and "c \<in> set cs"
  shows "get_column c s = get_column c d"
proof -
  have "c \<in> set (map fst (df_columns d))"
    using get_columns_Inr(1) [OF assms(2)] assms(3) by (auto simp: column_names_def)
  then obtain v where v: "map_of (df_columns d) c = Some v"
    by (metis map_of_eq_None_iff not_Some_eq set_map)
  have "map_of (map (\<lambda>c. (c, the (map_of (df_columns d) c))) cs) c = Some (the (map_of (df_columns d) c))"
    using assms(3) by (induction cs) auto
  then show ?thesis
    using v by (simp add: get_column_def get_columns_names(3) [OF assms(1,2)])
qed

text \<open>
  C7. When the selection of line 163 succeeds on a table whose column names are distinct
  (as the CSV parser makes them), the new table bound to \<^verbatim>\<open>data_set\<close> has exactly the
  ten columns of \<^verbatim>\<open>selected_features\<close>, in that order, the same row labels, and in each
  of these columns the values of the table it was taken from.
\<close>

theorem select_features_columns:
  assumes "distinct (column_names (heap w data_set))"
    and "fst (select_features data_set w) = Inr r"
  shows "column_names (heap (snd (select_features data_set w)) r) =
           [''bedrooms'', ''bathrooms'', ''sqft_living'', ''sqft_lot'', ''sqft_above'', ''street'',
            ''city'', ''statezip'', ''yr_built'', ''price''] \<and>
         df_index (heap (snd (select_features data_set w)) r) = df_index (heap w data_set) \<and>
         list_all (\<lambda>c. get_column c (heap (snd (select_features data_set w)) r) =
                       get_column c (heap w data_set)) selected_features"
proof -
  from assms(2) obtain s where s: "get_columns selected_features (heap w data_set) = Inr s"
    and r: "heap (snd (select_features data_set w)) r = s"
    by (auto simp: select_features_def py_bind_def py_read_def py_call_def py_new_def new_frame_def
        py_say_def py_print_def py_return_def split: sum.splits)
  show ?thesis
    unfolding r list_all_iff
    using get_columns_names(1,2) [OF assms(1) s] get_columns_values [OF assms(1) s]
    by (simp add: selected_features_def)
qed

lemma select_features_example:
  "fst (select_features 0 loaded_world) = Inr 1"
  by (simp add: select_features_def py_bind_def py_read_def py_call_def py_new_def new_frame_def
      py_say_def py_print_def py_return_def get_columns_def selected_features_def
      column_names_def loaded_world_def raw_sales_def)

theorem select_features_columns_witness:
  "distinct (column_names (heap loaded_world 0)) \<and>
   fst (select_features 0 loaded_world) = Inr 1 \<and>
   column_names (heap (snd (select_features 0 loaded_world)) 1) =
     [''bedrooms'', ''bathrooms'', ''sqft_living'', ''sqft_lot'', ''sqft_above'', ''street'',
      ''city'', ''statezip'', ''yr_built'', ''price''] \<and>
   df_index (heap (snd (select_features 0 loaded_world)) 1) = [0, 1, 2]"
proof -
  have d: "distinct (column_names (heap loaded_world 0))"
    by (simp add: column_names_def loaded_world_def raw_sales_def)
  have i: "df_index (heap loaded_world 0) = [0, 1, 2]"
    by (simp add: loaded_world_def raw_sales_def)
  show ?thesis
    using select_features_columns [OF d select_features_example] d select_features_example i
    by simp
qed

section \<open>The mutual-information step works on a copy\<close>

lemma py_getitem_world: "snd (py_getitem r c w) = w"
  by (simp add: py_getitem_def)

lemma py_setitem_heap: "r \<noteq> mi \<Longrightarrow> heap (snd (py_setitem mi c col w)) r = heap w r"
  by (simp add: py_setitem_def split: sum.split)

lemma factorize_columns_heap:
  "r \<noteq> mi \<Longrightarrow> heap (snd (factorize_columns mi columns w)) r = heap w r"
proof (induction columns arbitrary: w)
  case Nil
  then show ?case by (simp add: py_return_def)
next
  case (Cons column columns)
  show ?case
  proof (cases "py_getitem mi column w")
    case g: (Pair r1 w1)
    have w1: "w1 = w"
      using py_getitem_world [of mi column w] g by simp
    show ?thesis
    proof (cases r1)
      case (Inl e)
      with g w1 show ?thesis by (simp add: py_bind_def)
    next
      case (Inr col)
      show ?thesis
      proof (cases "py_setitem mi column (factorize col) w")
        case s: (Pair r2 w2)
        have w2: "heap w2 r = heap w r"
          using py_setitem_heap [OF Cons.prems, of column "factorize col" w] s by simp
        show ?thesis
        proof (cases r2)
          case (Inl e)
          with g w1 Inr s w2 show ?thesis by (simp add: py_bind_def)
        next
          case r2: (Inr u)
          with g w1 Inr s w2 Cons.IH [OF Cons.prems, of w2] show ?thesis
            by (simp add: py_bind_def)
        qed
      qed
    qed
  qed
qed

lemma mutual_information_rest_heap:
  "heap (snd (py_bind (py_read mi) (\<lambda>m.
     py_bind (py_call (drop_column ''price'' m)) (\<lambda>X.
     py_bind (py_call (get_column ''price'' m)) (\<lambda>y.
     py_bind (py_call (mutual_info_regression L X y
                (map (\<lambda>nc. dtype_of (snd nc) = Int64) (df_columns X))
                (check_random_state (Some 0) (entropy E)))) (\<lambda>mi_scores.
     py_bind (py_say (ScoresRepr (sort_values L (zip (column_names X) mi_scores)))) (\<lambda>_.
     py_return mi_scores))))) w)) = heap w"
  by (intro py_bind_heap py_read_heap py_call_heap py_say_heap py_return_heap)

text \<open>
  C9. The mutual-information step (lines 103-110) leaves the table bound to
  \<^verbatim>\<open>data_set\<close> as it was, whether the step returns or raises: the five columns are
  factorized in the copy, a new object.
\<close>

theorem mutual_information_on_copy:
  assumes "data_set < next_ref w"
  shows "heap (snd (mutual_information L E data_set w)) data_set = heap w data_set"
proof -
  define w1 where "w1 = snd (new_frame (heap w data_set) w)"
  define cols where "cols = [''date'', ''street'', ''city'', ''statezip'', ''country'']"
  have ne: "data_set \<noteq> next_ref w"
    using assms by simp
  have w1: "heap w1 data_set = heap w data_set"
    using ne by (simp add: w1_def new_frame_def)
  have fc: "heap (snd (factorize_columns (next_ref w) cols w1)) data_set = heap w data_set"
    using factorize_columns_heap [OF ne, of cols w1] w1 by simp
  have unfold: "mutual_information L E data_set w =
      py_bind (factorize_columns (next_ref w) cols) (\<lambda>_.
        py_bind (py_read (next_ref w)) (\<lambda>m.
     py_bind (py_call (drop_column ''price'' m)) (\<lambda>X.
     py_bind (py_call (get_column ''price'' m)) (\<lambda>y.
     py_bind (py_call (mutual_info_regression L X y
                (map (\<lambda>nc. dtype_of (snd nc) = Int64) (df_columns X))
                (check_random_state (Some 0) (entropy E)))) (\<lambda>mi_scores.
     py_bind (py_say (ScoresRepr (sort_values L (zip (column_names X) mi_scores)))) (\<lambda>_.
     py_return mi_scores)))))) w1"
    unfolding mutual_information_def cols_def w1_def
    by (simp add: py_bind_def py_read_def py_new_def new_frame_def del: factorize_columns.simps)
  show ?thesis
  proof (cases "factorize_columns (next_ref w) cols w1")
    case (Pair r w2)
    have w2: "heap w2 data_set = heap w data_set"
      using fc Pair by simp
    show ?thesis
    proof (cases r)
      case (Inl e)
      with Pair w2 show ?thesis
        unfolding unfold by (simp add: py_bind_def)
    next
      case (Inr u)
      have "snd (mutual_information L E data_set w) =
          snd (py_bind (py_read (next_ref w)) (\<lambda>m.
     py_bind (py_call (drop_column ''price'' m)) (\<lambda>X.
     py_bind (py_call (get_column ''price'' m)) (\<lambda>y.
     py_bind (py_call (mutual_info_regression L X y
                (map (\<lambda>nc. dtype_of (snd nc) = Int64) (df_columns X))
                (check_random_state (Some 0) (entropy E)))) (\<lambda>mi_scores.
     py_bind (py_say (ScoresRepr (sort_values L (zip (column_names X) mi_scores)))) (\<lambda>_.
     py_return mi_scores))))) w2)"
        unfolding unfold using Pair Inr by (subst py_bind_def) simp
      then show ?thesis
        using mutual_information_rest_heap [of "next_ref w" L E w2] w2 by simp
    qed
  qed
qed

theorem mutual_information_on_copy_witness:
  "(0::nat) < next_ref loaded_world \<and>
   heap (snd (mutual_information (stub_lib (\<lambda>_. Inr raw_sales)) still_env 0 loaded_world)) 0 =
     raw_sales"
proof -
  have h: "(0::nat) < next_ref loaded_world"
    by (simp add: loaded_world_def)
  show ?thesis
    using mutual_information_on_copy [OF h, of "stub_lib (\<lambda>_. Inr raw_sales)" still_env] h
    by (simp add: loaded_world_def)
qed

section \<open>Outliers\<close>































section \<open>The training loop\<close>

lemma train_calls:
  assumes "train L E name model X y w = (Inr m, w1)"
  shows "calls w1 = calls w @
           [if name = ''K-nearest neighbors (KNN)''
              then GridSearchCall KNeighborsRegressor [(''n_neighbors'', [1..<31])] 10 ''r2''
              else FitCall model]"
proof (cases "name = ''K-nearest neighbors (KNN)''")
  case True
  from assms [unfolded train_def Let_def] True
  have "py_bind (py_log (GridSearchCall KNeighborsRegressor [(''n_neighbors'', [1..<31])] 10 ''r2'')) (\<lambda>_.
         py_bind (py_call (grid_search_cv L KNeighborsRegressor
                    (estimator_seed KNeighborsRegressor (entropy E))
                    [(''n_neighbors'', [1..<31])] 10 ''r2'' X y)) (\<lambda>found.
         py_bind (py_say (Fmt [S ''Best parameters for KNN: '', Params (fst (snd found))])) (\<lambda>_.
         py_bind (py_say (Fmt [S ''Best score for KNN: '', F3 (snd (snd found))])) (\<lambda>_.
         py_return (fst found))))) w = (Inr m, w1)"
    by simp
  then have "calls w1 = calls w @ [GridSearchCall KNeighborsRegressor [(''n_neighbors'', [1..<31])] 10 ''r2'']"
    by (auto simp: py_bind_def py_log_def py_call_def py_say_def py_print_def py_return_def
        split: sum.splits)
  with True show ?thesis by simp
next
  case False
  from assms [unfolded train_def] False
  have "py_bind (py_log (FitCall model)) (\<lambda>_.
        py_call (fit L model (estimator_seed model (entropy E)) X y)) w = (Inr m, w1)"
    by simp
  then have "calls w1 = calls w @ [FitCall model]"
    by (auto simp: py_bind_def py_log_def py_call_def)
  with False show ?thesis by simp
qed

lemma py_say_calls: "py_say p w = (r, w1) \<Longrightarrow> calls w1 = calls w"
  by (auto simp: py_say_def py_print_def)

lemma time_time_calls: "time_time E w = (r, w1) \<Longrightarrow> calls w1 = calls w"
  by (auto simp: time_time_def)

lemma py_call_world: "py_call r w = (x, w1) \<Longrightarrow> w1 = w \<and> x = r"
  by (auto simp: py_call_def)

lemma training_loop_Cons:
  assumes "training_loop L E (item # rest) X y Xt acc w = (Inr preds, w')"
  obtains m p w1 w2 w3 where
    "train L E (fst item) (snd item) X y w1 = (Inr m, w2)"
    "calls w1 = calls w" "calls w3 = calls w2"
    "predict L m Xt = Inr p"
    "training_loop L E rest X y Xt (dict_set (fst item) p acc) w3 = (Inr preds, w')"
proof -
  from assms [unfolded training_loop.simps] obtain u wa
    where a: "py_say (Fmt [S ''Processing '', S (fst item), S ''...'']) w = (Inr u, wa)"
    and 1: "py_bind (time_time E) (\<lambda>start_time.
     py_bind (train L E (fst item) (snd item) X y) (\<lambda>fitted.
     py_bind (time_time E) (\<lambda>now.
     py_bind (py_say (Fmt [S (fst item), S '' training completed in '',
                           F3 (now - start_time), S '' seconds.''])) (\<lambda>_.
     py_bind (py_call (predict L fitted Xt)) (\<lambda>pred.
     training_loop L E rest X y Xt (dict_set (fst item) pred acc)))))) wa = (Inr preds, w')"
    by (rule py_bind_Inr_elim)
  from 1 obtain t0 w1 where b: "time_time E wa = (Inr t0, w1)"
    and 2: "py_bind (train L E (fst item) (snd item) X y) (\<lambda>fitted.
     py_bind (time_time E) (\<lambda>now.
     py_bind (py_say (Fmt [S (fst item), S '' training completed in '',
                           F3 (now - t0), S '' seconds.''])) (\<lambda>_.
     py_bind (py_call (predict L fitted Xt)) (\<lambda>pred.
     training_loop L E rest X y Xt (dict_set (fst item) pred acc))))) w1 = (Inr preds, w')"
    by (rule py_bind_Inr_elim)
  from 2 obtain m w2 where c: "train L E (fst item) (snd item) X y w1 = (Inr m, w2)"
    and 3: "py_bind (time_time E) (\<lambda>now.
     py_bind (py_say (Fmt [S (fst item), S '' training completed in '',
                           F3 (now - t0), S '' seconds.''])) (\<lambda>_.
     py_bind (py_call (predict L m Xt)) (\<lambda>pred.
     training_loop L E rest X y Xt (dict_set (fst item) pred acc)))) w2 = (Inr preds, w')"
    by (rule py_bind_Inr_elim)
  from 3 obtain t1 wb where d: "time_time E w2 = (Inr t1, wb)"
    and 4: "py_bind (py_say (Fmt [S (fst item), S '' training completed in '',
                           F3 (t1 - t0), S '' seconds.''])) (\<lambda>_.
     py_bind (py_call (predict L m Xt)) (\<lambda>pred.
     training_loop L E rest X y Xt (dict_set (fst item) pred acc))) wb = (Inr preds, w')"
    by (rule py_bind_Inr_elim)
  from 4 obtain u2 w3 where e: "py_say (Fmt [S (fst item), S '' training completed in '',
                           F3 (t1 - t0), S '' seconds.'']) wb = (Inr u2, w3)"
    and 5: "py_bind (py_call (predict L m Xt)) (\<lambda>pred.
     training_loop L E rest X y Xt (dict_set (fst item) pred acc)) w3 = (Inr preds, w')"
    by (rule py_bind_Inr_elim)
  from 5 obtain p w4 where f: "py_call (predict L m Xt) w3 = (Inr p, w4)"
    and 6: "training_loop L E rest X y Xt (dict_set (fst item) p acc) w4 = (Inr preds, w')"
    by (rule py_bind_Inr_elim)
  have "w4 = w3" "predict L m Xt = Inr p"
    using py_call_world [OF f] by simp_all
  moreover have "calls w1 = calls w"
    using py_say_calls [OF a] time_time_calls [OF b] by simp
  moreover have "calls w3 = calls w2"
    using time_time_calls [OF d] py_say_calls [OF e] by simp
  ultimately show ?thesis
    using that [OF c] 6 by simp
qed

lemma training_loop_general:
  assumes "training_loop L E ms X y Xt acc w = (Inr preds, w')"
  shows "calls w' = calls w @
           map (\<lambda>item. if fst item = ''K-nearest neighbors (KNN)''
                  then GridSearchCall KNeighborsRegressor [(''n_neighbors'', [1..<31])] 10 ''r2''
                  else FitCall (snd item)) ms \<and>
         (\<exists>ps. list_all2 (\<lambda>item p. \<exists>m w1. fst (train L E (fst item) (snd item) X y w1) = Inr m \<and>
                                  predict L m Xt = Inr p) ms ps \<and>
               preds = foldl (\<lambda>a ip. dict_set (fst (fst ip)) (snd ip) a) acc (zip ms ps))"
  using assms
proof (induction ms arbitrary: acc w)
  case Nil
  then show ?case by (simp add: py_return_def)
next
  case (Cons item rest)
  from Cons.prems obtain m p w1 w2 w3 where
    t: "train L E (fst item) (snd item) X y w1 = (Inr m, w2)"
    and c1: "calls w1 = calls w" and c3: "calls w3 = calls w2"
    and p: "predict L m Xt = Inr p"
    and rest: "training_loop L E rest X y Xt (dict_set (fst item) p acc) w3 = (Inr preds, w')"
    by (rule training_loop_Cons)
  from Cons.IH [OF rest] obtain ps where
    calls: "calls w' = calls w3 @
           map (\<lambda>item. if fst item = ''K-nearest neighbors (KNN)''
                  then GridSearchCall KNeighborsRegressor [(''n_neighbors'', [1..<31])] 10 ''r2''
                  else FitCall (snd item)) rest"
    and ps: "list_all2 (\<lambda>item p. \<exists>m w1. fst (train L E (fst item) (snd item) X y w1) = Inr m \<and>
                                  predict L m Xt = Inr p) rest ps"
    and preds: "preds = foldl (\<lambda>a ip. dict_set (fst (fst ip)) (snd ip) a)
                  (dict_set (fst item) p acc) (zip rest ps)"
    by blast
  have 1: "calls w' = calls w @
           map (\<lambda>item. if fst item = ''K-nearest neighbors (KNN)''
                  then GridSearchCall KNeighborsRegressor [(''n_neighbors'', [1..<31])] 10 ''r2''
                  else FitCall (snd item)) (item # rest)"
    using calls c1 c3 train_calls [OF t] by simp
  have "fst (train L E (fst item) (snd item) X y w1) = Inr m"
    using t by simp
  with p have "\<exists>m w1. fst (train L E (fst item) (snd item) X y w1) = Inr m \<and>
                                  predict L m Xt = Inr p"
    by blast
  with ps have 2: "list_all2 (\<lambda>item p. \<exists>m w1. fst (train L E (fst item) (snd item) X y w1) = Inr m \<and>
                                  predict L m Xt = Inr p) (item # rest) (p # ps)"
    by simp
  have 3: "preds = foldl (\<lambda>a ip. dict_set (fst (fst ip)) (snd ip) a) acc (zip (item # rest) (p # ps))"
    using preds by simp
  show ?case
    using 1 2 3 by blast
qed

lemma dict_set_new: "k \<notin> fst ` set ps \<Longrightarrow> dict_set k v ps = ps @ [(k, v)]"
  by (induction ps) auto

lemma foldl_dict_set_distinct:
  assumes "distinct (map fst acc @ map fst ms)" and "length ps = length ms"
  shows "foldl (\<lambda>a ip. dict_set (fst (fst ip)) (snd ip) a) acc (zip ms ps)
       = acc @ map (\<lambda>ip. (fst (fst ip), snd ip)) (zip ms ps)"
  using assms
proof (induction ms arbitrary: acc ps)
  case Nil
  then show ?case by simp
next
  case (Cons item rest)
  from Cons.prems(2) obtain p ps' where ps: "ps = p # ps'" and len: "length ps' = length rest"
    by (cases ps) auto
  have new: "dict_set (fst item) p acc = acc @ [(fst item, p)]"
    using Cons.prems(1) by (intro dict_set_new) auto
  have "distinct (map fst (acc @ [(fst item, p)]) @ map fst rest)"
    using Cons.prems(1) by auto
  from Cons.IH [OF this len] show ?case
    unfolding ps by (simp add: new)
qed

lemma list_all2_zip_names:
  assumes "list_all2 P ms ps"
  shows "list_all2 (\<lambda>item np. fst np = fst item \<and> P item (snd np)) ms
           (map (\<lambda>ip. (fst (fst ip), snd ip)) (zip ms ps))"
  using assms by (induction rule: list_all2_induct) auto

lemma zip_names:
  "length ps = length ms \<Longrightarrow> map fst (map (\<lambda>ip. (fst (fst ip), snd ip)) (zip ms ps)) = map fst ms"
  by (induction ps ms rule: list_induct2) simp_all

lemma models_names_distinct: "distinct (map fst models)"
  by (simp add: models_def)

lemma upt_1_31:
  "[1..<31] = [1, 2, 3, 4, 5, 6, 7, 8, 9, 10, 11, 12, 13, 14, 15, 16, 17, 18, 19, 20, 21, 22, 23,
               24, 25, 26, 27, 28, 29, 30 :: nat]"
  by (simp add: upt_rec)

lemma training_loop_by_train:
  assumes "fst (training_loop L E models X_train y_train X_test [] w) = Inr preds"
  shows "map fst preds =
           [''Multiple Linear Regression'', ''Random Forest'', ''Decision Tree Regression'',
            ''Boosted Decision Tree Regression'', ''K-nearest neighbors (KNN)'', ''XGBoost''] \<and>
         calls (snd (training_loop L E models X_train y_train X_test [] w)) = calls w @
           [FitCall LinearRegression,
            FitCall (RandomForestRegressor (Some 2)),
            FitCall (DecisionTreeRegressor (Some 2)),
            FitCall (GradientBoostingRegressor (Some 2)),
            GridSearchCall KNeighborsRegressor
              [(''n_neighbors'',
                [1, 2, 3, 4, 5, 6, 7, 8, 9, 10, 11, 12, 13, 14, 15, 16, 17, 18, 19, 20, 21, 22, 23,
                 24, 25, 26, 27, 28, 29, 30])] 10 ''r2'',
            FitCall (XGBRegressor (Some 2))] \<and>
         list_all2
           (\<lambda>item np. fst np = fst item \<and>
              (\<exists>m w1. fst (train L E (fst item) (snd item) X_train y_train w1) = Inr m \<and>
                      predict L m X_test = Inr (snd np)))
           models preds"
proof -
  let ?w' = "snd (training_loop L E models X_train y_train X_test [] w)"
  have run: "training_loop L E models X_train y_train X_test [] w = (Inr preds, ?w')"
    using assms by (metis prod.collapse)
  from training_loop_general [OF run] obtain ps where
    calls: "calls ?w' = calls w @
           map (\<lambda>item. if fst item = ''K-nearest neighbors (KNN)''
                  then GridSearchCall KNeighborsRegressor [(''n_neighbors'', [1..<31])] 10 ''r2''
                  else FitCall (snd item)) models"
    and ps: "list_all2 (\<lambda>item p. \<exists>m w1. fst (train L E (fst item) (snd item) X_train y_train w1) = Inr m \<and>
                                  predict L m X_test = Inr p) models ps"
    and preds: "preds = foldl (\<lambda>a ip. dict_set (fst (fst ip)) (snd ip) a) [] (zip models ps)"
    by blast
  have len: "length ps = length models"
    using ps by (simp add: list_all2_lengthD)
  have preds': "preds = map (\<lambda>ip. (fst (fst ip), snd ip)) (zip models ps)"
    unfolding preds using foldl_dict_set_distinct [of "[]" models ps] models_names_distinct len
    by simp
  have names: "map fst preds = map fst models"
    unfolding preds' using len by (rule zip_names)
  have all: "list_all2
           (\<lambda>item np. fst np = fst item \<and>
              (\<exists>m w1. fst (train L E (fst item) (snd item) X_train y_train w1) = Inr m \<and>
                      predict L m X_test = Inr (snd np)))
           models preds"
    unfolding preds' by (rule list_all2_zip_names [OF ps])
  have c: "map (\<lambda>item. if fst item = ''K-nearest neighbors (KNN)''
                  then GridSearchCall KNeighborsRegressor [(''n_neighbors'', [1..<31])] 10 ''r2''
                  else FitCall (snd item)) models =
           [FitCall LinearRegression,
            FitCall (RandomForestRegressor (Some 2)),
            FitCall (DecisionTreeRegressor (Some 2)),
            FitCall (GradientBoostingRegressor (Some 2)),
            GridSearchCall KNeighborsRegressor [(''n_neighbors'', [1..<31])] 10 ''r2'',
            FitCall (XGBRegressor (Some 2))]"
    by (simp add: models_def)
  have n: "map fst models =
           [''Multiple Linear Regression'', ''Random Forest'', ''Decision Tree Regression'',
            ''Boosted Decision Tree Regression'', ''K-nearest neighbors (KNN)'', ''XGBoost'']"
    by (simp add: models_def)
  show ?thesis
    using names n calls c all by (simp only: upt_1_31 simp_thms)
qed

lemma train_fit:
  assumes "fst (train L E name model X y w) = Inr m"
    and "name \<noteq> ''K-nearest neighbors (KNN)''"
  shows "fit L model (estimator_seed model (entropy E)) X y = Inr m"
  using assms by (simp add: train_def py_bind_def py_log_def py_call_def)

lemma train_grid_search:
  assumes "fst (train L E ''K-nearest neighbors (KNN)'' model X y w) = Inr m"
  shows "\<exists>best_params best_score.
           grid_search_cv L KNeighborsRegressor None [(''n_neighbors'', [1..<31])] 10 ''r2'' X y =
             Inr (m, best_params, best_score)"
proof (cases "grid_search_cv L KNeighborsRegressor None [(''n_neighbors'', [1..<31])] 10 ''r2'' X y")
  case (Inl e)
  with assms show ?thesis
    by (simp add: train_def py_bind_def py_log_def py_call_def Let_def)
next
  case (Inr found)
  with assms have "fst found = m"
    by (simp add: train_def py_bind_def py_log_def py_call_def py_say_def py_return_def Let_def)
  with Inr show ?thesis
    by (cases found) auto
qed

lemma list_all2_six:
  assumes "list_all2 R [a1, a2, a3, a4, a5, a6] ys"
  obtains b1 b2 b3 b4 b5 b6 where "ys = [b1, b2, b3, b4, b5, b6]"
    and "R a1 b1" "R a2 b2" "R a3 b3" "R a4 b4" "R a5 b5" "R a6 b6"
  using assms by (auto simp: list_all2_Cons1)

text \<open>
  C6. When the training loop returns, \<^verbatim>\<open>predictions\<close> holds six entries, under the six
  names of \<^verbatim>\<open>models\<close> and in their order. Five of them are what a model returned by
  the library's \<^verbatim>\<open>fit\<close> on the training set predicts on the test set: Linear
  Regression, and Random Forest, Decision Tree, Gradient Boosting and XGBoost built with
  \<^verbatim>\<open>random_state=2\<close>. The entry of KNN, and only that one, is what the best estimator
  of a \<^verbatim>\<open>GridSearchCV\<close> fit (a \<^verbatim>\<open>KNeighborsRegressor\<close>, \<^verbatim>\<open>n_neighbors\<close> 1 to 30,
  10 folds, scored by \<^verbatim>\<open>r2\<close>) predicts on the test set. The loop has made these six
  fitting calls, in this order, and no other.
\<close>

theorem six_models_fitted_and_predicted:
  assumes "fst (training_loop L E models X_train y_train X_test [] w) = Inr preds"
  shows "(\<exists>m1 m2 m3 m4 m5 m6 best_params best_score p1 p2 p3 p4 p5 p6.
            fit L LinearRegression None X_train y_train = Inr m1 \<and>
            fit L (RandomForestRegressor (Some 2)) (Some 2) X_train y_train = Inr m2 \<and>
            fit L (DecisionTreeRegressor (Some 2)) (Some 2) X_train y_train = Inr m3 \<and>
            fit L (GradientBoostingRegressor (Some 2)) (Some 2) X_train y_train = Inr m4 \<and>
            grid_search_cv L KNeighborsRegressor None
              [(''n_neighbors'',
                [1, 2, 3, 4, 5, 6, 7, 8, 9, 10, 11, 12, 13, 14, 15, 16, 17, 18, 19, 20, 21, 22, 23,
                 24, 25, 26, 27, 28, 29, 30])] 10 ''r2'' X_train y_train =
              Inr (m5, best_params, best_score) \<and>
            fit L (XGBRegressor (Some 2)) (Some 2) X_train y_train = Inr m6 \<and>
            predict L m1 X_test = Inr p1 \<and> predict L m2 X_test = Inr p2 \<and>
            predict L m3 X_test = Inr p3 \<and> predict L m4 X_test = Inr p4 \<and>
            predict L m5 X_test = Inr p5 \<and> predict L m6 X_test = Inr p6 \<and>
            preds =
              [(''Multiple Linear Regression'', p1), (''Random Forest'', p2),
               (''Decision Tree Regression'', p3), (''Boosted Decision Tree Regression'', p4),
               (''K-nearest neighbors (KNN)'', p5), (''XGBoost'', p6)]) \<and>
         calls (snd (training_loop L E models X_train y_train X_test [] w)) = calls w @
           [FitCall LinearRegression,
            FitCall (RandomForestRegressor (Some 2)),
            FitCall (DecisionTreeRegressor (Some 2)),
            FitCall (GradientBoostingRegressor (Some 2)),
            GridSearchCall KNeighborsRegressor
              [(''n_neighbors'',
                [1, 2, 3, 4, 5, 6, 7, 8, 9, 10, 11, 12, 13, 14, 15, 16, 17, 18, 19, 20, 21, 22, 23,
                 24, 25, 26, 27, 28, 29, 30])] 10 ''r2'',
            FitCall (XGBRegressor (Some 2))]"
proof -
  note old = training_loop_by_train [OF assms]
  from old have all: "list_all2
           (\<lambda>item np. fst np = fst item \<and>
              (\<exists>m w1. fst (train L E (fst item) (snd item) X_train y_train w1) = Inr m \<and>
                      predict L m X_test = Inr (snd np)))
           [(''Multiple Linear Regression'', LinearRegression),
            (''Random Forest'', RandomForestRegressor (Some 2)),
            (''Decision Tree Regression'', DecisionTreeRegressor (Some 2)),
            (''Boosted Decision Tree Regression'', GradientBoostingRegressor (Some 2)),
            (''K-nearest neighbors (KNN)'', KNeighborsRegressor),
            (''XGBoost'', XGBRegressor (Some 2))] preds"
    by (simp only: models_def)
  from all obtain b1 b2 b3 b4 b5 b6 where preds: "preds = [b1, b2, b3, b4, b5, b6]"
    and n1: "fst b1 = ''Multiple Linear Regression''"
    and t1: "\<exists>m w1. fst (train L E ''Multiple Linear Regression'' LinearRegression
                            X_train y_train w1) = Inr m \<and> predict L m X_test = Inr (snd b1)"
    and n2: "fst b2 = ''Random Forest''"
    and t2: "\<exists>m w1. fst (train L E ''Random Forest'' (RandomForestRegressor (Some 2))
                            X_train y_train w1) = Inr m \<and> predict L m X_test = Inr (snd b2)"
    and n3: "fst b3 = ''Decision Tree Regression''"
    and t3: "\<exists>m w1. fst (train L E ''Decision Tree Regression'' (DecisionTreeRegressor (Some 2))
                            X_train y_train w1) = Inr m \<and> predict L m X_test = Inr (snd b3)"
    and n4: "fst b4 = ''Boosted Decision Tree Regression''"
    and t4: "\<exists>m w1. fst (train L E ''Boosted Decision Tree Regression''
                            (GradientBoostingRegressor (Some 2))
                            X_train y_train w1) = Inr m \<and> predict L m X_test = Inr (snd b4)"
    and n5: "fst b5 = ''K-nearest neighbors (KNN)''"
    and t5: "\<exists>m w1. fst (train L E ''K-nearest neighbors (KNN)'' KNeighborsRegressor
                            X_train y_train w1) = Inr m \<and> predict L m X_test = Inr (snd b5)"
    and n6: "fst b6 = ''XGBoost''"
    and t6: "\<exists>m w1. fst (train L E ''XGBoost'' (XGBRegressor (Some 2))
                            X_train y_train w1) = Inr m \<and> predict L m X_test = Inr (snd b6)"
    by (rule list_all2_six) simp
  from t1 obtain m1 where f1: "fit L LinearRegression None X_train y_train = Inr m1"
    and p1: "predict L m1 X_test = Inr (snd b1)"
    using train_fit [of L E "''Multiple Linear Regression''" LinearRegression X_train y_train]
    by auto
  from t2 obtain m2 where f2: "fit L (RandomForestRegressor (Some 2)) (Some 2) X_train y_train = Inr m2"
    and p2: "predict L m2 X_test = Inr (snd b2)"
    using train_fit [of L E "''Random Forest''" "RandomForestRegressor (Some 2)" X_train y_train]
    by (auto simp: check_random_state_def)
  from t3 obtain m3 where f3: "fit L (DecisionTreeRegressor (Some 2)) (Some 2) X_train y_train = Inr m3"
    and p3: "predict L m3 X_test = Inr (snd b3)"
    using train_fit [of L E "''Decision Tree Regression''" "DecisionTreeRegressor (Some 2)"
        X_train y_train]
    by (auto simp: check_random_state_def)
  from t4 obtain m4 where f4: "fit L (GradientBoostingRegressor (Some 2)) (Some 2) X_train y_train = Inr m4"
    and p4: "predict L m4 X_test = Inr (snd b4)"
    using train_fit [of L E "''Boosted Decision Tree Regression''"
        "GradientBoostingRegressor (Some 2)" X_train y_train]
    by (auto simp: check_random_state_def)
  from t5 obtain m5 best_params best_score where
    f5: "grid_search_cv L KNeighborsRegressor None [(''n_neighbors'', [1..<31])] 10 ''r2''
           X_train y_train = Inr (m5, best_params, best_score)"
    and p5: "predict L m5 X_test = Inr (snd b5)"
    using train_grid_search [of L E KNeighborsRegressor X_train y_train]
    by blast
  from t6 obtain m6 where f6: "fit L (XGBRegressor (Some 2)) (Some 2) X_train y_train = Inr m6"
    and p6: "predict L m6 X_test = Inr (snd b6)"
    using train_fit [of L E "''XGBoost''" "XGBRegressor (Some 2)" X_train y_train]
    by (auto simp: check_random_state_def)
  have preds': "preds =
              [(''Multiple Linear Regression'', snd b1), (''Random Forest'', snd b2),
               (''Decision Tree Regression'', snd b3), (''Boosted Decision Tree Regression'', snd b4),
               (''K-nearest neighbors (KNN)'', snd b5), (''XGBoost'', snd b6)]"
    unfolding preds
    using n1 n2 n3 n4 n5 n6 by (simp add: prod_eq_iff)
  have 1: "\<exists>m1 m2 m3 m4 m5 m6 best_params best_score p1 p2 p3 p4 p5 p6.
            fit L LinearRegression None X_train y_train = Inr m1 \<and>
            fit L (RandomForestRegressor (Some 2)) (Some 2) X_train y_train = Inr m2 \<and>
            fit L (DecisionTreeRegressor (Some 2)) (Some 2) X_train y_train = Inr m3 \<and>
            fit L (GradientBoostingRegressor (Some 2)) (Some 2) X_train y_train = Inr m4 \<and>
            grid_search_cv L KNeighborsRegressor None
              [(''n_neighbors'', [1..<31])] 10 ''r2'' X_train y_train =
              Inr (m5, best_params, best_score) \<and>
            fit L (XGBRegressor (Some 2)) (Some 2) X_train y_train = Inr m6 \<and>
            predict L m1 X_test = Inr p1 \<and> predict L m2 X_test = Inr p2 \<and>
            predict L m3 X_test = Inr p3 \<and> predict L m4 X_test = Inr p4 \<and>
            predict L m5 X_test = Inr p5 \<and> predict L m6 X_test = Inr p6 \<and>
            preds =
              [(''Multiple Linear Regression'', p1), (''Random Forest'', p2),
               (''Decision Tree Regression'', p3), (''Boosted Decision Tree Regression'', p4),
               (''K-nearest neighbors (KNN)'', p5), (''XGBoost'', p6)]"
    using f1 f2 f3 f4 f5 f6 p1 p2 p3 p4 p5 p6 preds' by blast
  show ?thesis
    using 1 old by (simp only: upt_1_31 simp_thms)
qed

lemma training_example:
  "fst (training_loop (stub_lib (\<lambda>_. Inr raw_sales)) still_env models five_sales [] five_sales []
          initial_world) =
     Inr [(''Multiple Linear Regression'', [0, 0, 0, 0, 0]),
          (''Random Forest'', [0, 0, 0, 0, 0]),
          (''Decision Tree Regression'', [0, 0, 0, 0, 0]),
          (''Boosted Decision Tree Regression'', [0, 0, 0, 0, 0]),
          (''K-nearest neighbors (KNN)'', [0, 0, 0, 0, 0]),
          (''XGBoost'', [0, 0, 0, 0, 0])]"
  by (simp add: models_def py_bind_def train_def py_log_def py_call_def py_say_def py_print_def
      py_return_def time_time_def stub_lib_def five_sales_def Let_def)

theorem six_models_fitted_and_predicted_witness:
  "fst (training_loop (stub_lib (\<lambda>_. Inr raw_sales)) still_env models five_sales [] five_sales []
          initial_world) =
     Inr [(''Multiple Linear Regression'', [0, 0, 0, 0, 0]),
          (''Random Forest'', [0, 0, 0, 0, 0]),
          (''Decision Tree Regression'', [0, 0, 0, 0, 0]),
          (''Boosted Decision Tree Regression'', [0, 0, 0, 0, 0]),
          (''K-nearest neighbors (KNN)'', [0, 0, 0, 0, 0]),
          (''XGBoost'', [0, 0, 0, 0, 0])] \<and>
   (\<exists>m1 m2 m3 m4 m5 m6 best_params best_score p1 p2 p3 p4 p5 p6.
            fit (stub_lib (\<lambda>_. Inr raw_sales)) LinearRegression None five_sales [] = Inr m1 \<and>
            fit (stub_lib (\<lambda>_. Inr raw_sales)) (RandomForestRegressor (Some 2)) (Some 2) five_sales [] = Inr m2 \<and>
            fit (stub_lib (\<lambda>_. Inr raw_sales)) (DecisionTreeRegressor (Some 2)) (Some 2) five_sales [] = Inr m3 \<and>
            fit (stub_lib (\<lambda>_. Inr raw_sales)) (GradientBoostingRegressor (Some 2)) (Some 2) five_sales [] = Inr m4 \<and>
            grid_search_cv (stub_lib (\<lambda>_. Inr raw_sales)) KNeighborsRegressor None
              [(''n_neighbors'',
                [1, 2, 3, 4, 5, 6, 7, 8, 9, 10, 11, 12, 13, 14, 15, 16, 17, 18, 19, 20, 21, 22, 23,
                 24, 25, 26, 27, 28, 29, 30])] 10 ''r2'' five_sales [] =
              Inr (m5, best_params, best_score) \<and>
            fit (stub_lib (\<lambda>_. Inr raw_sales)) (XGBRegressor (Some 2)) (Some 2) five_sales [] = Inr m6 \<and>
            predict (stub_lib (\<lambda>_. Inr raw_sales)) m1 five_sales = Inr p1 \<and> predict (stub_lib (\<lambda>_. Inr raw_sales)) m2 five_sales = Inr p2 \<and>
            predict (stub_lib (\<lambda>_. Inr raw_sales)) m3 five_sales = Inr p3 \<and> predict (stub_lib (\<lambda>_. Inr raw_sales)) m4 five_sales = Inr p4 \<and>
            predict (stub_lib (\<lambda>_. Inr raw_sales)) m5 five_sales = Inr p5 \<and> predict (stub_lib (\<lambda>_. Inr raw_sales)) m6 five_sales = Inr p6 \<and>
            [(''Multiple Linear Regression'', [0, 0, 0, 0, 0]),
          (''Random Forest'', [0, 0, 0, 0, 0]),
          (''Decision Tree Regression'', [0, 0, 0, 0, 0]),
          (''Boosted Decision Tree Regression'', [0, 0, 0, 0, 0]),
          (''K-nearest neighbors (KNN)'', [0, 0, 0, 0, 0]),
          (''XGBoost'', [0, 0, 0, 0, 0])] =
              [(''Multiple Linear Regression'', p1), (''Random Forest'', p2),
               (''Decision Tree Regression'', p3), (''Boosted Decision Tree Regression'', p4),
               (''K-nearest neighbors (KNN)'', p5), (''XGBoost'', p6)]) \<and>
         calls (snd (training_loop (stub_lib (\<lambda>_. Inr raw_sales)) still_env models five_sales []
                      five_sales [] initial_world)) = calls initial_world @
           [FitCall LinearRegression,
            FitCall (RandomForestRegressor (Some 2)),
            FitCall (DecisionTreeRegressor (Some 2)),
            FitCall (GradientBoostingRegressor (Some 2)),
            GridSearchCall KNeighborsRegressor
              [(''n_neighbors'',
                [1, 2, 3, 4, 5, 6, 7, 8, 9, 10, 11, 12, 13, 14, 15, 16, 17, 18, 19, 20, 21, 22, 23,
                 24, 25, 26, 27, 28, 29, 30])] 10 ''r2'',
            FitCall (XGBRegressor (Some 2))]"
  by (rule conjI [OF training_example six_models_fitted_and_predicted [OF training_example]])

section \<open>The metrics table\<close>

lemma evaluation_loop_general:
  assumes "evaluation_loop preds y_test acc = Inr table"
  shows "\<exists>rows. table = acc @ rows \<and>
           list_all2 (\<lambda>item row. Model row = fst item \<and>
               mean_absolute_error y_test (snd item) = Inr (MAE row) \<and>
               mean_squared_error y_test (snd item) = Inr (MSE row) \<and>
               RMSE row = sqrt (MSE row) \<and>
               r2_score y_test (snd item) = Inr (R2_Score row)) preds rows"
  using assms
proof (induction preds arbitrary: acc)
  case Nil
  then show ?case by simp
next
  case (Cons item rest)
  from Cons.prems obtain mae mse r2 where
    mae: "mean_absolute_error y_test (snd item) = Inr mae"
    and mse: "mean_squared_error y_test (snd item) = Inr mse"
    and r2: "r2_score y_test (snd item) = Inr r2"
    and rest: "evaluation_loop rest y_test
       (acc @ [\<lparr>Model = fst item, MAE = mae, MSE = mse, RMSE = sqrt mse, R2_Score = r2\<rparr>]) = Inr table"
    by (auto simp: exn_bind_def split: sum.splits)
  from Cons.IH [OF rest] obtain rows where
    t: "table = (acc @ [\<lparr>Model = fst item, MAE = mae, MSE = mse, RMSE = sqrt mse, R2_Score = r2\<rparr>]) @ rows"
    and rows: "list_all2 (\<lambda>item row. Model row = fst item \<and>
               mean_absolute_error y_test (snd item) = Inr (MAE row) \<and>
               mean_squared_error y_test (snd item) = Inr (MSE row) \<and>
               RMSE row = sqrt (MSE row) \<and>
               r2_score y_test (snd item) = Inr (R2_Score row)) rest rows"
    by blast
  show ?case
    by (rule exI [of _ "\<lparr>Model = fst item, MAE = mae, MSE = mse, RMSE = sqrt mse, R2_Score = r2\<rparr> # rows"])
      (simp add: t rows mae mse r2)
qed

text \<open>
  C5. When the evaluation of section 5 returns, the metrics table has one row per entry of
  \<^verbatim>\<open>predictions\<close>, in order and under the entry's model name, and the row holds the
  MAE, MSE and R2 score of that entry's predictions against \<^verbatim>\<open>y_test\<close>, and as RMSE the
  square root of the MSE of the same row.
\<close>

theorem metrics_table_rows:
  assumes "fst (model_evaluation preds y_test w) = Inr evaluated"
  shows "map Model (fst evaluated) = map fst preds \<and>
         list_all2 (\<lambda>item row. Model row = fst item \<and>
               mean_absolute_error y_test (snd item) = Inr (MAE row) \<and>
               mean_squared_error y_test (snd item) = Inr (MSE row) \<and>
               RMSE row = sqrt (MSE row) \<and>
               r2_score y_test (snd item) = Inr (R2_Score row)) preds (fst evaluated)"
proof -
  from assms obtain table where t: "evaluation_loop preds y_test [] = Inr table"
    and e: "fst evaluated = table"
    by (auto simp: model_evaluation_def py_bind_def py_call_def py_return_def
        split: sum.splits prod.splits)
  from evaluation_loop_general [OF t] have all: "list_all2 (\<lambda>item row. Model row = fst item \<and>
               mean_absolute_error y_test (snd item) = Inr (MAE row) \<and>
               mean_squared_error y_test (snd item) = Inr (MSE row) \<and>
               RMSE row = sqrt (MSE row) \<and>
               r2_score y_test (snd item) = Inr (R2_Score row)) preds table"
    by simp
  then have "list_all2 (\<lambda>item row. Model row = fst item) preds table"
    by (rule list_all2_mono) simp
  then have "map Model table = map fst preds"
    by (induction rule: list_all2_induct) simp_all
  with all e show ?thesis by simp
qed

lemma evaluation_example:
  "evaluation_loop two_predictions two_targets [] = Inr two_rows"
  by (simp add: two_predictions_def two_targets_def two_rows_def exn_bind_def
      mean_absolute_error_def mean_squared_error_def r2_score_def check_targets_def as_float_def
      mean_def Let_def)

lemma selection_example:
  "fst (select_best two_rows initial_world) =
     Inr \<lparr>best_mse_model = row_B, best_r2_model = row_B, best_model_name = Some ''B''\<rparr>"
  by (simp add: select_best_def two_rows_def row_B_def idxmin_def idxmax_def labelled_def
      py_bind_def py_call_def py_say_def py_print_def py_return_def upt_rec)

lemma model_evaluation_example:
  "fst (model_evaluation two_predictions two_targets initial_world) =
     Inr (two_rows, \<lparr>best_mse_model = row_B, best_r2_model = row_B, best_model_name = Some ''B''\<rparr>)"
proof -
  obtain r w1 where s: "select_best two_rows initial_world = (r, w1)"
    by (cases "select_best two_rows initial_world")
  with selection_example have "r = Inr \<lparr>best_mse_model = row_B, best_r2_model = row_B, best_model_name = Some ''B''\<rparr>"
    by simp
  with s show ?thesis
    by (simp add: model_evaluation_def py_bind_def py_call_def py_return_def evaluation_example)
qed

theorem metrics_table_rows_witness:
  "fst (model_evaluation two_predictions two_targets initial_world) =
     Inr (two_rows, \<lparr>best_mse_model = row_B, best_r2_model = row_B, best_model_name = Some ''B''\<rparr>) \<and>
   map Model two_rows = [''A'', ''B''] \<and>
   list_all2 (\<lambda>item row. Model row = fst item \<and>
               mean_absolute_error two_targets (snd item) = Inr (MAE row) \<and>
               mean_squared_error two_targets (snd item) = Inr (MSE row) \<and>
               RMSE row = sqrt (MSE row) \<and>
               r2_score two_targets (snd item) = Inr (R2_Score row)) two_predictions two_rows"
  using metrics_table_rows [OF model_evaluation_example] model_evaluation_example
  by (simp add: two_predictions_def)

section \<open>The best model\<close>

lemma scan_best_min:
  "scan_best (\<lambda>v b. v < b) b cs \<in> set (b # cs) \<and>
   (\<forall>c \<in> set (b # cs). snd (scan_best (\<lambda>v b. v < b) b cs) \<le> snd c)"
proof (induction cs arbitrary: b)
  case Nil
  then show ?case by simp
next
  case (Cons c cs)
  let ?b = "if snd c < snd b then c else b"
  from Cons.IH [of ?b] show ?case
    by (auto split: if_splits)
qed

lemma scan_best_max:
  "scan_best (\<lambda>v b. v > b) b cs \<in> set (b # cs) \<and>
   (\<forall>c \<in> set (b # cs). snd c \<le> snd (scan_best (\<lambda>v b. v > b) b cs))"
proof (induction cs arbitrary: b)
  case Nil
  then show ?case by simp
next
  case (Cons c cs)
  let ?b = "if snd c > snd b then c else b"
  from Cons.IH [of ?b] show ?case
    by (auto split: if_splits)
qed

lemma zip_upt_mem:
  "(i, x) \<in> set (zip [0..<length xs] xs) \<longleftrightarrow> i < length xs \<and> x = xs ! i"
proof
  assume "(i, x) \<in> set (zip [0..<length xs] xs)"
  then obtain n where "[0..<length xs] ! n = i" "xs ! n = x" "n < length xs"
    by (auto simp: in_set_zip)
  then show "i < length xs \<and> x = xs ! i" by auto
next
  assume r: "i < length xs \<and> x = xs ! i"
  then have "[0..<length xs] ! i = fst (i, x) \<and> xs ! i = snd (i, x) \<and>
      i < length [0..<length xs] \<and> i < length xs"
    by simp
  then show "(i, x) \<in> set (zip [0..<length xs] xs)"
    unfolding in_set_zip by (rule exI)
qed

lemma set_labelled:
  "(i, v) \<in> set (labelled xs) \<longleftrightarrow> i < length xs \<and> xs ! i = Some v"
proof
  assume "(i, v) \<in> set (labelled xs)"
  then obtain ix where ix: "ix \<in> set (zip [0..<length xs] xs)" "snd ix \<noteq> None"
    "(i, v) = (fst ix, the (snd ix))"
    by (auto simp: labelled_def)
  then have "(i, snd ix) \<in> set (zip [0..<length xs] xs)" by simp
  then have "i < length xs \<and> snd ix = xs ! i" by (simp only: zip_upt_mem)
  with ix show "i < length xs \<and> xs ! i = Some v" by auto
next
  assume r: "i < length xs \<and> xs ! i = Some v"
  then have "(i, Some v) \<in> set (zip [0..<length xs] xs)"
    by (simp add: zip_upt_mem)
  then show "(i, v) \<in> set (labelled xs)"
    by (force simp: labelled_def image_iff)
qed

lemma idxmin_least:
  assumes "idxmin xs = Inr i"
  shows "i < length xs \<and> (\<exists>v. xs ! i = Some v \<and> (\<forall>j u. j < length xs \<and> xs ! j = Some u \<longrightarrow> v \<le> u))"
proof -
  from assms obtain c cs where l: "labelled xs = c # cs"
    and i: "i = fst (scan_best (\<lambda>v b. v < b) c cs)"
    by (auto simp: idxmin_def split: list.splits)
  let ?r = "scan_best (\<lambda>v b. v < b) c cs"
  have mem: "?r \<in> set (labelled xs)" and least: "\<forall>c \<in> set (labelled xs). snd ?r \<le> snd c"
    using scan_best_min [of c cs] l by simp_all
  from mem have "(i, snd ?r) \<in> set (labelled xs)"
    by (simp add: i)
  then have 1: "i < length xs" and 2: "xs ! i = Some (snd ?r)"
    by (simp_all add: set_labelled)
  have "\<forall>j u. j < length xs \<and> xs ! j = Some u \<longrightarrow> snd ?r \<le> u"
  proof (intro allI impI)
    fix j u
    assume "j < length xs \<and> xs ! j = Some u"
    then have "(j, u) \<in> set (labelled xs)"
      by (simp add: set_labelled)
    with least show "snd ?r \<le> u" by fastforce
  qed
  with 1 2 show ?thesis by blast
qed

lemma idxmax_greatest:
  assumes "idxmax xs = Inr i"
  shows "i < length xs \<and> (\<exists>v. xs ! i = Some v \<and> (\<forall>j u. j < length xs \<and> xs ! j = Some u \<longrightarrow> u \<le> v))"
proof -
  from assms obtain c cs where l: "labelled xs = c # cs"
    and i: "i = fst (scan_best (\<lambda>v b. v > b) c cs)"
    by (auto simp: idxmax_def split: list.splits)
  let ?r = "scan_best (\<lambda>v b. v > b) c cs"
  have mem: "?r \<in> set (labelled xs)" and most: "\<forall>c \<in> set (labelled xs). snd c \<le> snd ?r"
    using scan_best_max [of c cs] l by simp_all
  from mem have "(i, snd ?r) \<in> set (labelled xs)"
    by (simp add: i)
  then have 1: "i < length xs" and 2: "xs ! i = Some (snd ?r)"
    by (simp_all add: set_labelled)
  have "\<forall>j u. j < length xs \<and> xs ! j = Some u \<longrightarrow> u \<le> snd ?r"
  proof (intro allI impI)
    fix j u
    assume "j < length xs \<and> xs ! j = Some u"
    then have "(j, u) \<in> set (labelled xs)"
      by (simp add: set_labelled)
    with most show "u \<le> snd ?r" by fastforce
  qed
  with 1 2 show ?thesis by blast
qed

lemma select_best_Inr:
  assumes "fst (select_best table w) = Inr chosen"
  obtains i j where "idxmin (map (\<lambda>r. Some (MSE r)) table) = Inr i"
    and "idxmax (map R2_Score table) = Inr j"
    and "best_mse_model chosen = table ! i" and "best_r2_model chosen = table ! j"
    and "best_model_name chosen =
           (if Model (table ! i) = Model (table ! j) then Some (Model (table ! i)) else None)"
    and "stdout (snd (select_best table w)) = stdout w @
           [Fmt [S ''The best model based on MSE is '', S (Model (table ! i)),
                 S '' with an MSE of '', F3 (MSE (table ! i)), S ''.''],
            Fmt [S ''The best model based on '', S r2_label, S '' is '',
                 S (Model (table ! j)), S '' with an '', S r2_label, S '' of '',
                 F3opt (R2_Score (table ! j)), S ''.''],
            if Model (table ! i) = Model (table ! j)
            then Fmt [S (CHR 0x0A # ''Overall, the best model is ''), S (Model (table ! i)),
                      S '' based on common criteria, with an '', S r2_label, S '' of '',
                      F3opt (R2_Score (table ! j)), S ''.'']
            else Text (CHR 0x0A #
              ''Consideration is needed to choose the overall best model based on specific requirements.'')]"
proof (cases "idxmin (map (\<lambda>r. Some (MSE r)) table)")
  case (Inl e)
  with assms show ?thesis
    by (simp add: select_best_def py_bind_def py_call_def)
next
  case i: (Inr i)
  show ?thesis
  proof (cases "idxmax (map R2_Score table)")
    case (Inl e)
    with assms i show ?thesis
      by (simp add: select_best_def py_bind_def py_call_def)
  next
    case j: (Inr j)
    show ?thesis
    proof (cases "Model (table ! i) = Model (table ! j)")
      case True
      have run: "select_best table w =
          (Inr \<lparr>best_mse_model = table ! i, best_r2_model = table ! j,
                best_model_name = Some (Model (table ! i))\<rparr>,
           w\<lparr>stdout := stdout w @
             [Fmt [S ''The best model based on MSE is '', S (Model (table ! i)),
                   S '' with an MSE of '', F3 (MSE (table ! i)), S ''.''],
              Fmt [S ''The best model based on '', S r2_label, S '' is '',
                   S (Model (table ! j)), S '' with an '', S r2_label, S '' of '',
                   F3opt (R2_Score (table ! j)), S ''.''],
              Fmt [S (CHR 0x0A # ''Overall, the best model is ''), S (Model (table ! i)),
                   S '' based on common criteria, with an '', S r2_label, S '' of '',
                   F3opt (R2_Score (table ! j)), S ''.'']]\<rparr>)"
        using i j True
        by (simp add: select_best_def py_bind_def py_call_def py_say_def py_print_def py_return_def)
      with assms have c: "chosen = \<lparr>best_mse_model = table ! i, best_r2_model = table ! j,
                best_model_name = Some (Model (table ! i))\<rparr>"
        by simp
      show ?thesis
        by (rule that [OF i j]) (simp_all add: c run True)
    next
      case False
      have run: "select_best table w =
          (Inr \<lparr>best_mse_model = table ! i, best_r2_model = table ! j,
                best_model_name = None\<rparr>,
           w\<lparr>stdout := stdout w @
             [Fmt [S ''The best model based on MSE is '', S (Model (table ! i)),
                   S '' with an MSE of '', F3 (MSE (table ! i)), S ''.''],
              Fmt [S ''The best model based on '', S r2_label, S '' is '',
                   S (Model (table ! j)), S '' with an '', S r2_label, S '' of '',
                   F3opt (R2_Score (table ! j)), S ''.''],
              Text (CHR 0x0A #
                ''Consideration is needed to choose the overall best model based on specific requirements.'')]\<rparr>)"
        using i j False
        by (simp add: select_best_def py_bind_def py_call_def py_say_def py_print_def py_return_def)
      with assms have c: "chosen = \<lparr>best_mse_model = table ! i, best_r2_model = table ! j,
                best_model_name = None\<rparr>"
        by simp
      show ?thesis
        by (rule that [OF i j]) (simp_all add: c run False)
    qed
  qed
qed

text \<open>
  C4. When the selection returns, the row named best by MSE is a row of the metrics table
  whose MSE is the smallest of the table, the row named best by R2 is a row whose R2 score
  is the largest of the table, an overall best model is declared exactly when the two rows
  name the same model (it is that model), and otherwise the script prints that
  consideration is needed.
\<close>

theorem select_best_by_mse_and_r2:
  assumes "fst (select_best table w) = Inr chosen"
  shows "best_mse_model chosen \<in> set table \<and>
         list_all (\<lambda>row. MSE (best_mse_model chosen) \<le> MSE row) table \<and>
         best_r2_model chosen \<in> set table \<and>
         (\<exists>top. R2_Score (best_r2_model chosen) = Some top \<and>
                list_all (\<lambda>row. case R2_Score row of None \<Rightarrow> True | Some v \<Rightarrow> v \<le> top) table) \<and>
         best_model_name chosen =
           (if Model (best_mse_model chosen) = Model (best_r2_model chosen)
            then Some (Model (best_mse_model chosen)) else None) \<and>
         stdout (snd (select_best table w)) = stdout w @
           [Fmt [S ''The best model based on MSE is '', S (Model (best_mse_model chosen)),
                 S '' with an MSE of '', F3 (MSE (best_mse_model chosen)), S ''.''],
            Fmt [S ''The best model based on '', S r2_label, S '' is '',
                 S (Model (best_r2_model chosen)), S '' with an '', S r2_label, S '' of '',
                 F3opt (R2_Score (best_r2_model chosen)), S ''.''],
            if Model (best_mse_model chosen) = Model (best_r2_model chosen)
            then Fmt [S (CHR 0x0A # ''Overall, the best model is ''),
                      S (Model (best_mse_model chosen)),
                      S '' based on common criteria, with an '', S r2_label, S '' of '',
                      F3opt (R2_Score (best_r2_model chosen)), S ''.'']
            else Text (CHR 0x0A #
              ''Consideration is needed to choose the overall best model based on specific requirements.'')]"
proof -
  from assms obtain i j where i: "idxmin (map (\<lambda>r. Some (MSE r)) table) = Inr i"
    and j: "idxmax (map R2_Score table) = Inr j"
    and bi: "best_mse_model chosen = table ! i" and bj: "best_r2_model chosen = table ! j"
    and name: "best_model_name chosen =
           (if Model (table ! i) = Model (table ! j) then Some (Model (table ! i)) else None)"
    and out: "stdout (snd (select_best table w)) = stdout w @
           [Fmt [S ''The best model based on MSE is '', S (Model (table ! i)),
                 S '' with an MSE of '', F3 (MSE (table ! i)), S ''.''],
            Fmt [S ''The best model based on '', S r2_label, S '' is '',
                 S (Model (table ! j)), S '' with an '', S r2_label, S '' of '',
                 F3opt (R2_Score (table ! j)), S ''.''],
            if Model (table ! i) = Model (table ! j)
            then Fmt [S (CHR 0x0A # ''Overall, the best model is ''), S (Model (table ! i)),
                      S '' based on common criteria, with an '', S r2_label, S '' of '',
                      F3opt (R2_Score (table ! j)), S ''.'']
            else Text (CHR 0x0A #
              ''Consideration is needed to choose the overall best model based on specific requirements.'')]"
    by (rule select_best_Inr)
  have il: "i < length table"
    using idxmin_least [OF i] by simp
  from idxmin_least [OF i] obtain v where
    v: "map (\<lambda>r. Some (MSE r)) table ! i = Some v"
    and least: "\<forall>k u. k < length (map (\<lambda>r. Some (MSE r)) table) \<and>
                  map (\<lambda>r. Some (MSE r)) table ! k = Some u \<longrightarrow> v \<le> u"
    by blast
  have vi: "v = MSE (table ! i)"
    using v il by simp
  have imin: "MSE (table ! i) \<le> MSE (table ! k)" if "k < length table" for k
    using least [rule_format, of k "MSE (table ! k)"] that vi by simp
  have jl: "j < length table"
    using idxmax_greatest [OF j] by simp
  from idxmax_greatest [OF j] obtain top where
    t: "map R2_Score table ! j = Some top"
    and most: "\<forall>k u. k < length (map R2_Score table) \<and> map R2_Score table ! k = Some u \<longrightarrow> u \<le> top"
    by blast
  have jtop: "R2_Score (table ! j) = Some top"
    using t jl by simp
  have jmax: "u \<le> top" if "k < length table" and "R2_Score (table ! k) = Some u" for k u
    using most [rule_format, of k u] that by simp
  have 1: "best_mse_model chosen \<in> set table" "best_r2_model chosen \<in> set table"
    using il jl bi bj by simp_all
  have 2: "list_all (\<lambda>row. MSE (best_mse_model chosen) \<le> MSE row) table"
    unfolding list_all_iff bi using imin by (auto simp: in_set_conv_nth)
  have 3: "list_all (\<lambda>row. case R2_Score row of None \<Rightarrow> True | Some v \<Rightarrow> v \<le> top) table"
    unfolding list_all_iff using jmax by (auto simp: in_set_conv_nth split: option.splits)
  have 4: "\<exists>top. R2_Score (best_r2_model chosen) = Some top \<and>
                list_all (\<lambda>row. case R2_Score row of None \<Rightarrow> True | Some v \<Rightarrow> v \<le> top) table"
    using jtop 3 bj by auto
  show ?thesis
    using 1 2 4 name out unfolding bi bj by simp
qed

theorem select_best_by_mse_and_r2_witness:
  "fst (select_best two_rows initial_world) =
     Inr \<lparr>best_mse_model = row_B, best_r2_model = row_B, best_model_name = Some ''B''\<rparr> \<and>
   row_B \<in> set two_rows \<and>
   list_all (\<lambda>row. MSE row_B \<le> MSE row) two_rows \<and>
   stdout (snd (select_best two_rows initial_world)) =
     [Fmt [S ''The best model based on MSE is '', S ''B'', S '' with an MSE of '', F3 0, S ''.''],
      Fmt [S ''The best model based on '', S r2_label, S '' is '', S ''B'', S '' with an '',
           S r2_label, S '' of '', F3opt (Some 1), S ''.''],
      Fmt [S (CHR 0x0A # ''Overall, the best model is ''), S ''B'',
           S '' based on common criteria, with an '', S r2_label, S '' of '',
           F3opt (Some 1), S ''.'']]"
  using select_best_by_mse_and_r2 [OF selection_example] selection_example
  by (simp add: row_B_def initial_world_def)

section \<open>Two runs on the same files\<close>

lemma agreeI:
  assumes "\<And>w1 w2. same_objects w1 w2 \<Longrightarrow>
             fst (m1 w1) = fst (m2 w2) \<and> same_objects (snd (m1 w1)) (snd (m2 w2))"
  shows "agree m1 m2"
  using assms by (simp add: agree_def)

lemma agreeD:
  assumes "agree m1 m2" and "same_objects w1 w2"
  shows "fst (m1 w1) = fst (m2 w2)" and "same_objects (snd (m1 w1)) (snd (m2 w2))"
  using assms by (simp_all add: agree_def)

lemma agree_bind:
  assumes m: "agree m1 m2" and f: "\<And>x. agree (f1 x) (f2 x)"
  shows "agree (py_bind m1 f1) (py_bind m2 f2)"
proof (rule agreeI)
  fix w1 w2
  assume s: "same_objects w1 w2"
  obtain r1 v1 where 1: "m1 w1 = (r1, v1)" by (cases "m1 w1")
  obtain r2 v2 where 2: "m2 w2 = (r2, v2)" by (cases "m2 w2")
  have r: "r1 = r2" and v: "same_objects v1 v2"
    using agreeD [OF m s] 1 2 by simp_all
  have 3: "m2 w2 = (r1, v2)"
    using 2 r by simp
  show "fst (py_bind m1 f1 w1) = fst (py_bind m2 f2 w2) \<and>
        same_objects (snd (py_bind m1 f1 w1)) (snd (py_bind m2 f2 w2))"
  proof (cases r1)
    case (Inl e)
    with 1 3 v show ?thesis by (simp add: py_bind_def)
  next
    case (Inr x)
    with 1 3 agreeD [OF f [of x] v] show ?thesis by (simp add: py_bind_def)
  qed
qed

lemma agree_time:
  assumes "\<And>t t'. agree (f t) (f' t')"
  shows "agree (py_bind (time_time E) f) (py_bind (time_time E') f')"
proof (rule agreeI)
  fix w1 w2
  assume s: "same_objects w1 w2"
  have "same_objects (w1\<lparr>time_calls := Suc (time_calls w1)\<rparr>) (w2\<lparr>time_calls := Suc (time_calls w2)\<rparr>)"
    using s by (simp add: same_objects_def)
  from agreeD [OF assms this]
  show "fst (py_bind (time_time E) f w1) = fst (py_bind (time_time E') f' w2) \<and>
        same_objects (snd (py_bind (time_time E) f w1)) (snd (py_bind (time_time E') f' w2))"
    by (simp add: py_bind_def time_time_def)
qed

lemma agree_if:
  assumes "c \<Longrightarrow> agree a a'" and "\<not> c \<Longrightarrow> agree b b'"
  shows "agree (if c then a else b) (if c then a' else b')"
  using assms by simp

lemma agree_say: "agree (py_say p) (py_say q)"
  by (simp add: agree_def same_objects_def py_say_def py_print_def)

lemma agree_call: "agree (py_call r) (py_call r)"
  by (simp add: agree_def py_call_def)

lemma agree_return: "agree (py_return x) (py_return x)"
  by (simp add: agree_def py_return_def)

lemma agree_raise: "agree (py_raise e) (py_raise e)"
  by (simp add: agree_def py_raise_def)

lemma agree_read: "agree (py_read r) (py_read r)"
  by (simp add: agree_def same_objects_def py_read_def)

lemma agree_new: "agree (py_new d) (py_new d)"
  by (simp add: agree_def same_objects_def py_new_def new_frame_def)

lemma agree_getitem: "agree (py_getitem r c) (py_getitem r c)"
  by (simp add: agree_def same_objects_def py_getitem_def)

lemma agree_setitem: "agree (py_setitem r c col) (py_setitem r c col)"
  by (simp add: agree_def same_objects_def py_setitem_def split: sum.split)

lemma agree_report: "agree (py_report r) (py_report r)"
  by (simp add: agree_def same_objects_def py_report_def)

lemma agree_log: "agree (py_log c) (py_log c)"
  by (simp add: agree_def same_objects_def py_log_def)

lemma agree_method: "agree (py_method v a) (py_method v a)"
  by (cases v) (simp_all add: py_method_def agree_raise agree_return)

lemma agree_load_dataset: "agree (load_dataset parse path) (load_dataset parse path)"
  by (simp add: agree_def same_objects_def load_dataset_def new_frame_def py_print_def
      split: sum.split)

lemma agree_check_data_quality: "agree (check_data_quality v) (check_data_quality v)"
  by (simp add: agree_def same_objects_def check_data_quality_def py_print_def Let_def
      split: pyval.split)

lemmas agree_steps =
  agree_time agree_bind agree_if agree_say agree_call agree_return agree_raise agree_read
  agree_new agree_getitem agree_setitem agree_report agree_log agree_method
  agree_load_dataset agree_check_data_quality

lemma agree_inspect_dataset: "agree (inspect_dataset L) (inspect_dataset L)"
  unfolding inspect_dataset_def by (intro agree_steps)

lemma agree_preprocess_date: "agree (preprocess_date L r) (preprocess_date L r)"
  unfolding preprocess_date_def by (intro agree_steps)

lemma agree_factorize_columns: "agree (factorize_columns mi cs) (factorize_columns mi cs)"
  by (induction cs) (simp_all add: agree_steps)

lemma agree_mutual_information:
  "agree (mutual_information L E r) (mutual_information L E' r)"
  unfolding mutual_information_def check_random_state_def option.case
  by (intro agree_steps agree_factorize_columns)

lemma agree_explore: "agree (explore L r) (explore L r)"
  unfolding explore_def by (intro agree_steps)

lemma agree_select_features: "agree (select_features r) (select_features r)"
  unfolding select_features_def by (intro agree_steps)

lemma agree_iqr_loop: "agree (iqr_loop vars d) (iqr_loop vars d)"
  by (induction vars) (simp_all add: agree_steps)

lemma agree_zscore_loop: "agree (zscore_loop vars d) (zscore_loop vars d)"
  by (induction vars) (simp_all add: agree_steps)

lemma agree_remove_outliers: "agree (remove_outliers d) (remove_outliers d)"
  unfolding remove_outliers_def Let_def by (intro agree_steps)

lemma agree_encode_and_scale: "agree (encode_and_scale L E d) (encode_and_scale L E' d)"
  unfolding encode_and_scale_def encoder_seed_def if_False by (intro agree_steps)

lemma agree_split_data: "agree (split_data L E X y) (split_data L E' X y)"
  unfolding split_data_def check_random_state_def option.case by (intro agree_steps)

lemma agree_train:
  assumes "estimator_seed model (entropy E) = estimator_seed model (entropy E')"
  shows "agree (train L E name model X y) (train L E' name model X y)"
proof -
  have eq: "train L E name model X y = train L E' name model X y"
    using assms by (simp add: train_def)
  have "agree (train L E' name model X y) (train L E' name model X y)"
    unfolding train_def Let_def by (intro agree_steps)
  with eq show ?thesis by simp
qed

lemma agree_training_loop:
  assumes "list_all (\<lambda>item. estimator_seed (snd item) (entropy E) =
                            estimator_seed (snd item) (entropy E')) ms"
  shows "agree (training_loop L E ms X y Xt acc) (training_loop L E' ms X y Xt acc)"
  using assms
proof (induction ms arbitrary: acc)
  case Nil
  show ?case by (simp add: agree_return)
next
  case (Cons item rest)
  from Cons.prems have seed: "estimator_seed (snd item) (entropy E) =
      estimator_seed (snd item) (entropy E')"
    and rest: "list_all (\<lambda>item. estimator_seed (snd item) (entropy E) =
                            estimator_seed (snd item) (entropy E')) rest"
    by simp_all
  show ?case
    unfolding training_loop.simps
    by (intro agree_steps agree_train [OF seed] Cons.IH [OF rest])
qed

lemma models_seeded:
  "list_all (\<lambda>item. estimator_seed (snd item) g = estimator_seed (snd item) g') models"
  by (simp add: models_def check_random_state_def)

lemma agree_model_development:
  "agree (model_development L E X y) (model_development L E' X y)"
  unfolding model_development_def
  by (intro agree_steps agree_split_data agree_training_loop models_seeded)

lemma agree_select_best: "agree (select_best table) (select_best table)"
  unfolding select_best_def by (intro agree_steps)

lemma agree_model_evaluation: "agree (model_evaluation preds y_test) (model_evaluation preds y_test)"
  unfolding model_evaluation_def by (intro agree_steps agree_select_best)

lemma agree_script: "agree (script L E) (script L E')"
  unfolding script_def
  by (intro agree_steps agree_inspect_dataset agree_preprocess_date agree_mutual_information
      agree_explore agree_select_features agree_iqr_loop agree_zscore_loop agree_remove_outliers
      agree_encode_and_scale agree_model_development agree_model_evaluation)

text \<open>The model does not make every run alike by construction: an estimator built without
  \<^verbatim>\<open>random_state\<close> draws from the global generator, whose state differs from run to
  run.\<close>

lemma unseeded_estimator_follows_entropy:
  "estimator_seed (RandomForestRegressor None) g = Some g"
  by (simp add: check_random_state_def)

text \<open>
  C10. Two runs of the script with the same library routines on the same files, started in
  the same state, that differ in the state of the global random generator and in the
  readings of the clock, end alike: both raise the same exception, or both return the same
  MI scores, the same train/test split, the same predictions, the same metrics table and
  the same choice of a best model; they leave the same table objects and have made the same
  fitting calls. Every call that draws random numbers gets its seed from the script
  (\<open>0\<close> for the mutual information, \<open>2\<close> for the split and the four seeded regressors),
  so the global generator is never consulted. Only the printed training times differ.
\<close>

theorem script_deterministic:
  "fst (script L E w) = fst (script L E' w) \<and>
   heap (snd (script L E w)) = heap (snd (script L E' w)) \<and>
   calls (snd (script L E w)) = calls (snd (script L E' w))"
proof -
  have "same_objects w w"
    by (simp add: same_objects_def)
  from agreeD [OF agree_script this, of L E E'] show ?thesis
    by (simp add: same_objects_def)
qed

end
